theory Spec2Isabelle
  imports Complex_Main
begin

section \<open>The J-algo live trader: a shallow embedding of \<open>LiveTrader\<close>\<close>

text \<open>
  The class \<open>LiveTrader\<close> keeps a window of candles (seven parallel arrays), a
  WebSocket handle with reconnect counters, the state object of the signal engine
  \<open>jAlgo\<close> and the two active trades.  Every method is modelled as a function from the
  object's fields (the record \<open>trader\<close>) to the updated fields and the list of effects the
  method performs, in program order.  The engine, the snapshot fetch, the clock and the
  socket library are outside the class; they enter the model as parameters.  A handler
  runs to its end before the next event is handled, and reads the clock once.  The
  calls of \<open>console.log\<close> are left out.

  Numbers.  The prices and the fields of the engine state are modelled as real
  numbers: they are taken to be finite, and arithmetic on them is exact.  What JavaScript
  adds to finite numbers is kept where the code can produce it: reading the last element
  of an empty array gives \<open>undefined\<close> (here \<open>None\<close>), which arithmetic turns into
  \<open>NaN\<close>, and a division by zero gives an infinity or \<open>NaN\<close>.  Signed zeros, rounding
  and overflow are not modelled.
\<close>

subsection \<open>JavaScript numbers\<close>

datatype jsnum = Fin real | PInf | NInf | NaN

text \<open>The infinity with the sign of a finite number; \<open>NaN\<close> for zero.\<close>

definition signed_inf :: "real \<Rightarrow> jsnum" where
  "signed_inf a = (if 0 < a then PInf else if a < 0 then NInf else NaN)"

text \<open>\<open>ToNumber\<close> of a value that is a number or \<open>undefined\<close>.\<close>

definition toNumber :: "real option \<Rightarrow> jsnum" where
  "toNumber v = (case v of None \<Rightarrow> NaN | Some r \<Rightarrow> Fin r)"

fun js_neg :: "jsnum \<Rightarrow> jsnum" where
  "js_neg (Fin a) = Fin (- a)"
| "js_neg PInf = NInf"
| "js_neg NInf = PInf"
| "js_neg NaN = NaN"

fun js_abs :: "jsnum \<Rightarrow> jsnum" where
  "js_abs (Fin a) = Fin \<bar>a\<bar>"
| "js_abs PInf = PInf"
| "js_abs NInf = PInf"
| "js_abs NaN = NaN"

fun js_sub :: "jsnum \<Rightarrow> jsnum \<Rightarrow> jsnum" where
  "js_sub NaN b = NaN"
| "js_sub a NaN = NaN"
| "js_sub (Fin a) (Fin b) = Fin (a - b)"
| "js_sub (Fin a) PInf = NInf"
| "js_sub (Fin a) NInf = PInf"
| "js_sub PInf PInf = NaN"
| "js_sub PInf b = PInf"
| "js_sub NInf NInf = NaN"
| "js_sub NInf b = NInf"

fun js_mul :: "jsnum \<Rightarrow> jsnum \<Rightarrow> jsnum" where
  "js_mul NaN b = NaN"
| "js_mul a NaN = NaN"
| "js_mul (Fin a) (Fin b) = Fin (a * b)"
| "js_mul (Fin a) PInf = signed_inf a"
| "js_mul (Fin a) NInf = signed_inf (- a)"
| "js_mul PInf (Fin b) = signed_inf b"
| "js_mul NInf (Fin b) = signed_inf (- b)"
| "js_mul PInf PInf = PInf"
| "js_mul PInf NInf = NInf"
| "js_mul NInf PInf = NInf"
| "js_mul NInf NInf = PInf"

fun js_div :: "jsnum \<Rightarrow> jsnum \<Rightarrow> jsnum" where
  "js_div NaN b = NaN"
| "js_div a NaN = NaN"
| "js_div (Fin a) (Fin b) = (if b = 0 then signed_inf a else Fin (a / b))"
| "js_div (Fin a) b = Fin 0"
| "js_div PInf (Fin b) = (if b < 0 then NInf else PInf)"
| "js_div NInf (Fin b) = (if b < 0 then PInf else NInf)"
| "js_div a b = NaN"

text \<open>\<open>Math.min\<close> of two numbers: \<open>NaN\<close> as soon as one argument is.\<close>

fun js_min :: "jsnum \<Rightarrow> jsnum \<Rightarrow> jsnum" where
  "js_min NaN b = NaN"
| "js_min a NaN = NaN"
| "js_min NInf b = NInf"
| "js_min a NInf = NInf"
| "js_min PInf b = b"
| "js_min a PInf = a"
| "js_min (Fin a) (Fin b) = Fin (min a b)"

text \<open>The comparisons \<open>a > b\<close>, \<open>a >= b\<close> and \<open>a <= b\<close>: false when an operand is \<open>NaN\<close>.\<close>

fun js_gt :: "jsnum \<Rightarrow> jsnum \<Rightarrow> bool" where
  "js_gt NaN b = False"
| "js_gt a NaN = False"
| "js_gt (Fin a) (Fin b) = (b < a)"
| "js_gt a PInf = False"
| "js_gt NInf b = False"
| "js_gt a b = True"

fun js_ge :: "jsnum \<Rightarrow> jsnum \<Rightarrow> bool" where
  "js_ge NaN b = False"
| "js_ge a NaN = False"
| "js_ge a b = (a = b \<or> js_gt a b)"

definition js_le :: "jsnum \<Rightarrow> jsnum \<Rightarrow> bool" where
  "js_le a b = js_ge b a"

subsection \<open>Data\<close>

text \<open>
  \<open>this.candles\<close>: the object \<open>fetchBinanceData\<close> returns, seven parallel arrays.
  The array \<open>open\<close> is the field \<open>open'\<close>.
\<close>

record candles =
  openTime :: "int list"
  open' :: "real list"
  high :: "real list"
  low :: "real list"
  close :: "real list"
  volume :: "real list"
  closeTime :: "int list"

text \<open>
  The payload \<open>event.k\<close> of a kline message.  The fields \<open>t\<close>, \<open>T\<close>, \<open>o\<close>,
  \<open>h\<close>, \<open>l\<close>, \<open>c\<close>, \<open>v\<close> and \<open>x\<close> of the feed carry the prefix \<open>k_\<close>; the
  prices are the values \<open>parseFloat\<close> gives.
\<close>

record kline =
  k_t :: int
  k_T :: int
  k_o :: real
  k_h :: real
  k_l :: real
  k_c :: real
  k_v :: real
  k_x :: bool

text \<open>
  What \<open>JSON.parse(data.toString())\<close> makes of a message: it throws (\<open>Malformed\<close>),
  or gives an event without a field \<open>k\<close>, or a kline event.
\<close>

datatype message = Malformed | NotKline | KlineEvent kline

text \<open>The options of \<open>this.config\<close> that the class itself reads.\<close>

record config =
  symbol :: string
  interval :: string
  isFutures :: bool
  rewardMultiple :: real
  useLeverage :: bool
  leverageAmount :: real

text \<open>The fields of the engine's state that \<open>processCandle\<close> reads.\<close>

record algo_state =
  inLongTrade :: bool
  inShortTrade :: bool
  longEntryPrice :: real
  shortEntryPrice :: real
  longStopReference :: real
  shortStopReference :: real
  longTargetLevel :: real
  shortTargetLevel :: real
  riskAmount :: real

text \<open>
  The result of a call of \<open>jAlgo\<close>: \<open>result.state\<close>, and \<open>result.signal\<close> given by
  its field \<open>position\<close> (\<open>None\<close> when the signal is absent).  A call that throws is
  \<open>Inl\<close> with the message; so is a result without the indicator arrays, which makes
  the next statement of \<open>processCandle\<close> throw before the state is assigned.
\<close>

record engine_result =
  res_state :: algo_state
  res_signal :: "string option"

type_synonym engine = "candles option \<Rightarrow> algo_state option \<Rightarrow> config \<Rightarrow> string + engine_result"

text \<open>\<open>this.activeLongTrade\<close> and \<open>this.activeShortTrade\<close>.  The identifier
  \<open>symbol-Date.now()-counter\<close> is kept as its three parts.\<close>

record active_trade =
  trade_id :: "string \<times> int \<times> nat"
  entryTime :: "int option"
  trade_entryPrice :: "real option"
  stopLevel :: real
  targetLevel :: real
  trade_riskAmount :: real

text \<open>The object passed to \<open>sendSignal\<close> for an exit (the fields copied from the
  configuration are left out).\<close>

record exit_signal =
  position :: string
  entryPrice :: real
  exitPrice :: "real option"
  profitLoss :: jsnum
  riskedAmount :: real
  reason :: string

type_synonym sock = nat

text \<open>
  The effects of the methods, in the order they happen:
  \<^item> \<open>ErrorLog\<close>: a call of \<open>console.error\<close>;
  \<^item> \<open>EngineCall\<close>: a call of \<open>jAlgo\<close>;
  \<^item> \<open>SendExit\<close>, \<open>SendEntry position price stopLevel targetLevel\<close>,
    \<open>SendUpdate position previousStop newStop entryPrice targetLevel\<close>: the calls of
    \<open>sendSignal\<close> of type exit, entry and update;
  \<^item> \<open>SendStats\<close>: a call of \<open>sendStatsPanel\<close> with the given state;
  \<^item> \<open>ReconnectTimer d\<close>: \<open>setTimeout\<close> of the reconnect callback after \<open>d\<close> ms;
  \<^item> \<open>ConnectTimer d\<close>: \<open>setTimeout\<close> of the connection timeout;
  \<^item> \<open>OpenSocket\<close>: \<open>new WebSocket\<close>, a connection attempt;
  \<^item> \<open>TerminateSocket\<close>: \<open>socket.terminate()\<close>;
  \<^item> \<open>Uncaught\<close>: an exception that leaves a timer callback.
\<close>

datatype effect =
    ErrorLog string
  | EngineCall
  | SendExit exit_signal
  | SendEntry string "real option" real real
  | SendUpdate string "real option" real "real option" real
  | SendStats algo_state
  | ReconnectTimer nat
  | ConnectTimer nat
  | OpenSocket sock
  | TerminateSocket sock
  | Uncaught string

text \<open>The fields of a \<open>LiveTrader\<close>.\<close>

record trader =
  config :: config
  candles :: "candles option"
  socket :: "sock option"
  isConnected :: bool
  reconnectAttempts :: nat
  maxReconnectAttempts :: nat
  reconnectDelay :: nat
  state :: "algo_state option"
  activeLongTrade :: "active_trade option"
  activeShortTrade :: "active_trade option"
  tradeIdCounter :: nat
  lastCandleTime :: int
  lastStatsUpdate :: "int option"

text \<open>The constructor.\<close>

definition LiveTrader :: "config \<Rightarrow> trader" where
  "LiveTrader cfg =
     \<lparr>config = cfg, candles = None, socket = None, isConnected = False,
      reconnectAttempts = 0, maxReconnectAttempts = 10, reconnectDelay = 1000,
      state = None, activeLongTrade = None, activeShortTrade = None,
      tradeIdCounter = 0, lastCandleTime = 0, lastStatsUpdate = None\<rparr>"

subsection \<open>The candle window\<close>

text \<open>The last element of an array, \<open>xs[xs.length - 1]\<close>: \<open>undefined\<close> when it is empty.\<close>

definition last_elem :: "'a list \<Rightarrow> 'a option" where
  "last_elem xs = (if xs = [] then None else Some (last xs))"

text \<open>The seven calls of \<open>push\<close> in \<open>handleMessage\<close>, then the seven calls of
  \<open>shift\<close> (which leaves an empty array empty).\<close>

definition push_kline :: "kline \<Rightarrow> candles \<Rightarrow> candles" where
  "push_kline k cs =
     \<lparr>openTime = openTime cs @ [k_t k], open' = open' cs @ [k_o k], high = high cs @ [k_h k],
      low = low cs @ [k_l k], close = close cs @ [k_c k], volume = volume cs @ [k_v k],
      closeTime = closeTime cs @ [k_T k]\<rparr>"

definition shift_candles :: "candles \<Rightarrow> candles" where
  "shift_candles cs =
     \<lparr>openTime = tl (openTime cs), open' = tl (open' cs), high = tl (high cs),
      low = tl (low cs), close = tl (close cs), volume = tl (volume cs),
      closeTime = tl (closeTime cs)\<rparr>"

subsection \<open>\<open>processCandle\<close>\<close>

text \<open>The factor \<open>this.config.useLeverage ? this.config.leverageAmount : 1\<close>.\<close>

definition leverageFactor :: "config \<Rightarrow> real" where
  "leverageFactor cfg = (if useLeverage cfg then leverageAmount cfg else 1)"

text \<open>
  Reason and profit of a closed long trade, from the copy \<open>p\<close> of the state before the
  engine ran, the new signal and the last high and close of the window.
\<close>

definition longExitOutcome ::
  "config \<Rightarrow> algo_state \<Rightarrow> string option \<Rightarrow> real option \<Rightarrow> real option \<Rightarrow> string \<times> jsnum" where
  "longExitOutcome cfg p sig currentHigh currentClose =
     (if js_ge (toNumber currentHigh) (Fin (longTargetLevel p)) then
        (''Target Hit'', Fin (riskAmount p * rewardMultiple cfg * leverageFactor cfg))
      else if sig = Some ''short'' then
        (let longPL = js_sub (toNumber currentClose) (Fin (longEntryPrice p));
             longRisk = Fin (longEntryPrice p - longStopReference p)
         in if js_gt longPL (Fin 0) then
              (let targetDistance = Fin (longTargetLevel p - longEntryPrice p);
                   actualDistance = longPL;
                   percentageToTarget = js_min (js_div actualDistance targetDistance) (Fin 1)
               in (''New Signal (Short)'',
                   js_mul (js_mul (js_mul percentageToTarget (Fin (riskAmount p)))
                     (Fin (rewardMultiple cfg))) (Fin (leverageFactor cfg))))
            else
              (let percentageLoss = js_min (js_div (js_abs longPL) (js_abs longRisk)) (Fin 1)
               in (''New Signal (Short)'',
                   js_mul (js_mul (js_neg percentageLoss) (Fin (riskAmount p)))
                     (Fin (leverageFactor cfg)))))
      else (''Unknown'', Fin 0))"

definition shortExitOutcome ::
  "config \<Rightarrow> algo_state \<Rightarrow> string option \<Rightarrow> real option \<Rightarrow> real option \<Rightarrow> string \<times> jsnum" where
  "shortExitOutcome cfg p sig currentLow currentClose =
     (if js_le (toNumber currentLow) (Fin (shortTargetLevel p)) then
        (''Target Hit'', Fin (riskAmount p * rewardMultiple cfg * leverageFactor cfg))
      else if sig = Some ''long'' then
        (let shortPL = js_sub (Fin (shortEntryPrice p)) (toNumber currentClose);
             shortRisk = Fin (shortStopReference p - shortEntryPrice p)
         in if js_gt shortPL (Fin 0) then
              (let targetDistance = Fin (shortEntryPrice p - shortTargetLevel p);
                   actualDistance = shortPL;
                   percentageToTarget = js_min (js_div actualDistance targetDistance) (Fin 1)
               in (''New Signal (Long)'',
                   js_mul (js_mul (js_mul percentageToTarget (Fin (riskAmount p)))
                     (Fin (rewardMultiple cfg))) (Fin (leverageFactor cfg))))
            else
              (let percentageLoss = js_min (js_div (js_abs shortPL) (js_abs shortRisk)) (Fin 1)
               in (''New Signal (Long)'',
                   js_mul (js_mul (js_neg percentageLoss) (Fin (riskAmount p)))
                     (Fin (leverageFactor cfg)))))
      else (''Unknown'', Fin 0))"

text \<open>
  The steps of \<open>processCandle\<close> after the engine has returned.  Each takes the copy
  \<open>prevState\<close> of the state before the call (\<open>None\<close> is the copy \<open>{}\<close> of \<open>null\<close>, whose
  fields are all \<open>undefined\<close>), the engine's result, the window, and the trader whose
  field \<open>state\<close> already holds the new state.

  A long trade was closed: \<open>prevState.inLongTrade && !this.state.inLongTrade\<close>.
\<close>

definition closeLong ::
  "algo_state option \<Rightarrow> engine_result \<Rightarrow> candles \<Rightarrow> trader \<Rightarrow> trader \<times> effect list" where
  "closeLong prevState result cs t =
     (case prevState of
        None \<Rightarrow> (t, [])
      | Some p \<Rightarrow>
          if inLongTrade p \<and> \<not> inLongTrade (res_state result) then
            (let (exitReason, pl) =
                   longExitOutcome (config t) p (res_signal result)
                     (last_elem (high cs)) (last_elem (close cs))
             in (t\<lparr>activeLongTrade := None\<rparr>,
                 [SendExit \<lparr>position = ''long'', entryPrice = longEntryPrice p,
                             exitPrice = last_elem (close cs), profitLoss = pl,
                             riskedAmount = riskAmount p, reason = exitReason\<rparr>,
                  SendStats (res_state result)]))
          else (t, []))"

definition closeShort ::
  "algo_state option \<Rightarrow> engine_result \<Rightarrow> candles \<Rightarrow> trader \<Rightarrow> trader \<times> effect list" where
  "closeShort prevState result cs t =
     (case prevState of
        None \<Rightarrow> (t, [])
      | Some p \<Rightarrow>
          if inShortTrade p \<and> \<not> inShortTrade (res_state result) then
            (let (exitReason, pl) =
                   shortExitOutcome (config t) p (res_signal result)
                     (last_elem (low cs)) (last_elem (close cs))
             in (t\<lparr>activeShortTrade := None\<rparr>,
                 [SendExit \<lparr>position = ''short'', entryPrice = shortEntryPrice p,
                             exitPrice = last_elem (close cs), profitLoss = pl,
                             riskedAmount = riskAmount p, reason = exitReason\<rparr>,
                  SendStats (res_state result)]))
          else (t, []))"

text \<open>A new entry signal; \<open>generateTradeId\<close> increments the counter and reads the clock.\<close>

definition openTrade :: "int \<Rightarrow> engine_result \<Rightarrow> candles \<Rightarrow> trader \<Rightarrow> trader \<times> effect list" where
  "openTrade now result cs t =
     (let s = res_state result; currentClose = last_elem (close cs);
          currentTime = last_elem (closeTime cs)
      in case res_signal result of
           None \<Rightarrow> (t, [])
         | Some pos \<Rightarrow>
             if pos = ''long'' then
               (t\<lparr>tradeIdCounter := tradeIdCounter t + 1,
                  activeLongTrade := Some
                    \<lparr>trade_id = (symbol (config t), now, tradeIdCounter t + 1),
                     entryTime = currentTime, trade_entryPrice = currentClose,
                     stopLevel = longStopReference s, targetLevel = longTargetLevel s,
                     trade_riskAmount = riskAmount s\<rparr>\<rparr>,
                [SendEntry ''long'' currentClose (longStopReference s) (longTargetLevel s)])
             else if pos = ''short'' then
               (t\<lparr>tradeIdCounter := tradeIdCounter t + 1,
                  activeShortTrade := Some
                    \<lparr>trade_id = (symbol (config t), now, tradeIdCounter t + 1),
                     entryTime = currentTime, trade_entryPrice = currentClose,
                     stopLevel = shortStopReference s, targetLevel = shortTargetLevel s,
                     trade_riskAmount = riskAmount s\<rparr>\<rparr>,
                [SendEntry ''short'' currentClose (shortStopReference s) (shortTargetLevel s)])
             else (t, []))"

text \<open>
  The stop reference of an active trade has changed:
  \<open>this.activeLongTrade && prevState.longStopReference !== this.state.longStopReference\<close>.
  A field of the copy of \<open>null\<close> is \<open>undefined\<close> and differs from every number.
\<close>

definition updateLongStop :: "algo_state option \<Rightarrow> engine_result \<Rightarrow> trader \<Rightarrow> trader \<times> effect list" where
  "updateLongStop prevState result t =
     (let s = res_state result in
      case activeLongTrade t of
        None \<Rightarrow> (t, [])
      | Some a \<Rightarrow>
          if map_option longStopReference prevState \<noteq> Some (longStopReference s) then
            (t\<lparr>activeLongTrade := Some (a\<lparr>stopLevel := longStopReference s\<rparr>)\<rparr>,
             [SendUpdate ''long'' (map_option longStopReference prevState) (longStopReference s)
                (trade_entryPrice a) (targetLevel a)])
          else (t, []))"

definition updateShortStop :: "algo_state option \<Rightarrow> engine_result \<Rightarrow> trader \<Rightarrow> trader \<times> effect list" where
  "updateShortStop prevState result t =
     (let s = res_state result in
      case activeShortTrade t of
        None \<Rightarrow> (t, [])
      | Some a \<Rightarrow>
          if map_option shortStopReference prevState \<noteq> Some (shortStopReference s) then
            (t\<lparr>activeShortTrade := Some (a\<lparr>stopLevel := shortStopReference s\<rparr>)\<rparr>,
             [SendUpdate ''short'' (map_option shortStopReference prevState) (shortStopReference s)
                (trade_entryPrice a) (targetLevel a)])
          else (t, []))"

text \<open>
  The statistics panel every 24 hours: \<open>!this.lastStatsUpdate\<close> holds for \<open>undefined\<close>
  and for \<open>0\<close>, and \<open>this.lastStatsUpdate || 0\<close> is then \<open>0\<close>.
\<close>

definition heartbeat :: "int \<Rightarrow> engine_result \<Rightarrow> trader \<Rightarrow> trader \<times> effect list" where
  "heartbeat now result t =
     (let lastOr0 = (case lastStatsUpdate t of None \<Rightarrow> 0 | Some u \<Rightarrow> u);
          hoursSinceLastStatsUpdate = real_of_int (now - lastOr0) / (1000 * 60 * 60)
      in if lastStatsUpdate t = None \<or> lastStatsUpdate t = Some 0
            \<or> 24 \<le> hoursSinceLastStatsUpdate
         then (t\<lparr>lastStatsUpdate := Some now\<rparr>, [SendStats (res_state result)])
         else (t, []))"

text \<open>
  \<open>processCandle\<close>, with the engine \<open>jAlgo\<close> and the clock reading \<open>now\<close> as
  parameters.  The whole body is inside \<open>try\<close>: an engine that throws leaves the fields
  as they were, and \<open>this.candles\<close> being \<open>null\<close> throws at the first read of the
  window, after \<open>this.state\<close> has been assigned.
\<close>

definition processCandle :: "engine \<Rightarrow> int \<Rightarrow> trader \<Rightarrow> trader \<times> effect list" where
  "processCandle jAlgo now t =
     (let prevState = state t in
      case jAlgo (candles t) (state t) (config t) of
        Inl err \<Rightarrow> (t, [EngineCall, ErrorLog ''Error processing candle:''])
      | Inr result \<Rightarrow>
          (let t1 = t\<lparr>state := Some (res_state result)\<rparr> in
           case candles t1 of
             None \<Rightarrow> (t1, [EngineCall, ErrorLog ''Error processing candle:''])
           | Some cs \<Rightarrow>
               (let (t2, e2) = closeLong prevState result cs t1;
                    (t3, e3) = closeShort prevState result cs t2;
                    (t4, e4) = openTrade now result cs t3;
                    (t5, e5) = updateLongStop prevState result t4;
                    (t6, e6) = updateShortStop prevState result t5;
                    (t7, e7) = heartbeat now result t6
                in (t7, EngineCall # e2 @ e3 @ e4 @ e5 @ e6 @ e7))))"

subsection \<open>\<open>handleMessage\<close>\<close>

text \<open>
  The parse error and the \<open>TypeError\<close> of \<open>this.candles.open.push\<close> on \<open>null\<close> are
  caught by the \<open>try\<close> around the body; the assignment to \<open>lastCandleTime\<close> comes
  before the test of the flag \<open>x\<close>.
\<close>

definition handleMessage :: "engine \<Rightarrow> int \<Rightarrow> message \<Rightarrow> trader \<Rightarrow> trader \<times> effect list" where
  "handleMessage jAlgo now msg t =
     (case msg of
        Malformed \<Rightarrow> (t, [ErrorLog ''Error processing WebSocket message:''])
      | NotKline \<Rightarrow> (t, [])
      | KlineEvent k \<Rightarrow>
          if lastCandleTime t = k_t k then (t, [])
          else
            (let t1 = t\<lparr>lastCandleTime := k_t k\<rparr> in
             if k_x k then
               (case candles t1 of
                  None \<Rightarrow> (t1, [ErrorLog ''Error processing WebSocket message:''])
                | Some cs \<Rightarrow>
                    processCandle jAlgo now (t1\<lparr>candles := Some (shift_candles (push_kline k cs))\<rparr>))
             else (t1, [])))"

text \<open>Messages handled one after the other, each with the clock reading at its arrival.\<close>

fun handleMessages :: "engine \<Rightarrow> (int \<times> message) list \<Rightarrow> trader \<Rightarrow> trader \<times> effect list" where
  "handleMessages jAlgo [] t = (t, [])"
| "handleMessages jAlgo ((now, msg) # ms) t =
     (let (t1, e1) = handleMessage jAlgo now msg t;
          (t2, e2) = handleMessages jAlgo ms t1
      in (t2, e1 @ e2))"

subsection \<open>The connection\<close>

text \<open>
  \<open>connectWebSocket\<close>, up to the point where the handlers are installed: the old socket
  is terminated, a new one (\<open>ws\<close>) is created and the 10 second timeout is set.
\<close>

definition connectWebSocket :: "sock \<Rightarrow> trader \<Rightarrow> trader \<times> effect list" where
  "connectWebSocket ws t =
     (t\<lparr>socket := Some ws\<rparr>,
      (case socket t of None \<Rightarrow> [] | Some old \<Rightarrow> [TerminateSocket old])
        @ [OpenSocket ws, ConnectTimer 10000])"

text \<open>
  The callback of the 10 second timeout.  It reads \<open>this.socket\<close> when it fires, which
  is \<open>null\<close> after \<open>stop\<close>.
\<close>

definition onConnectTimeout :: "trader \<Rightarrow> trader \<times> effect list" where
  "onConnectTimeout t =
     (if \<not> isConnected t then
        (case socket t of
           None \<Rightarrow> (t, [ErrorLog ''WebSocket connection timeout'', Uncaught ''TypeError''])
         | Some ws \<Rightarrow> (t, [ErrorLog ''WebSocket connection timeout'', TerminateSocket ws]))
      else (t, []))"

text \<open>The handlers of the socket events \<open>open\<close> and \<open>error\<close>.\<close>

definition onOpen :: "trader \<Rightarrow> trader" where
  "onOpen t = t\<lparr>isConnected := True, reconnectAttempts := 0, reconnectDelay := 1000\<rparr>"

definition onError :: "trader \<Rightarrow> trader \<times> effect list" where
  "onError t = (t\<lparr>isConnected := False\<rparr>, [ErrorLog ''WebSocket error:''])"

text \<open>\<open>attemptReconnect\<close>: the guard, the counter, the delay and the timer.\<close>

definition attemptReconnect :: "trader \<Rightarrow> trader \<times> effect list" where
  "attemptReconnect t =
     (if maxReconnectAttempts t \<le> reconnectAttempts t then
        (t, [ErrorLog ''Maximum reconnection attempts reached. Giving up.''])
      else
        (let t1 = t\<lparr>reconnectAttempts := reconnectAttempts t + 1\<rparr>;
             delay = min 30000 (reconnectDelay t1 * 2 ^ (reconnectAttempts t1 - 1))
         in (t1, [ReconnectTimer delay])))"

text \<open>The handler of the socket event \<open>close\<close>.\<close>

definition onClose :: "trader \<Rightarrow> trader \<times> effect list" where
  "onClose t = attemptReconnect (t\<lparr>isConnected := False\<rparr>)"

text \<open>
  The callback of the reconnect timer: the window is fetched again (\<open>fetched\<close> is what
  \<open>fetchBinanceData\<close> gives, \<open>Inl\<close> when it throws), then the socket is opened.
\<close>

definition reconnectCallback :: "string + candles \<Rightarrow> sock \<Rightarrow> trader \<Rightarrow> trader \<times> effect list" where
  "reconnectCallback fetched ws t =
     (case fetched of
        Inl err \<Rightarrow> (t, [ErrorLog ''Reconnection failed:''])
      | Inr cs \<Rightarrow> connectWebSocket ws (t\<lparr>candles := Some cs\<rparr>))"

text \<open>\<open>stop\<close>.\<close>

definition stop :: "trader \<Rightarrow> trader \<times> effect list" where
  "stop t =
     (t\<lparr>socket := None, isConnected := False\<rparr>,
      (case socket t of None \<Rightarrow> [] | Some ws \<Rightarrow> [TerminateSocket ws]))"

text \<open>Consecutive calls of \<open>attemptReconnect\<close>, none of them followed by a successful
  connection: the trader after \<open>n\<close> calls, and the effects of all of them.\<close>

fun attemptReconnects :: "nat \<Rightarrow> trader \<Rightarrow> trader \<times> effect list" where
  "attemptReconnects 0 t = (t, [])"
| "attemptReconnects (Suc n) t =
     (let (t1, e1) = attemptReconnect t;
          (t2, e2) = attemptReconnects n t1
      in (t2, e1 @ e2))"

text \<open>
  The surroundings of a trader: the sockets it has created, each with its state in the
  socket library, and the timers it has set and that have not fired yet.  A socket is
  named by its position in the list.  This is how the socket library and the timers of
  the runtime are taken to behave:
  \<^item> a new socket is connecting; it can open, and until it has closed it can close, once;
  \<^item> \<open>terminate\<close> on a socket that has not closed makes it closing (its \<open>close\<close> event
    is still to come) and does nothing to a closed one;
  \<^item> a timer fires once, after it has been set;
  \<^item> \<open>error\<close> and \<open>message\<close> events and calls of \<open>stop\<close> may come at any time (for
    the first two this allows more than the library does);
  \<^item> the client of the class calls \<open>initialize\<close> once, which opens the first socket, and
    afterwards calls nothing but \<open>stop\<close>;
  \<^item> events go on after an exception has left a timer callback (in the runtime the
    process ends there, so this too allows more).
\<close>

datatype sock_status = SockConnecting | SockOpen | SockClosing | SockClosed

record world =
  trader :: trader
  sockets :: "sock_status list"
  reconnectTimers :: nat
  connectTimers :: nat

definition live :: "sock_status \<Rightarrow> bool" where
  "live st \<longleftrightarrow> st \<noteq> SockClosed"

definition liveCount :: "sock_status list \<Rightarrow> nat" where
  "liveCount xs = length (filter live xs)"

text \<open>What an effect of a handler does to the surroundings.\<close>

fun applyEffect :: "effect \<Rightarrow> world \<Rightarrow> world" where
  "applyEffect (ReconnectTimer d) w = w\<lparr>reconnectTimers := reconnectTimers w + 1\<rparr>"
| "applyEffect (ConnectTimer d) w = w\<lparr>connectTimers := connectTimers w + 1\<rparr>"
| "applyEffect (OpenSocket ws) w = w\<lparr>sockets := sockets w @ [SockConnecting]\<rparr>"
| "applyEffect (TerminateSocket ws) w =
     (if ws < length (sockets w) \<and> live (sockets w ! ws)
      then w\<lparr>sockets := (sockets w)[ws := SockClosing]\<rparr> else w)"
| "applyEffect e w = w"

definition applyEffects :: "effect list \<Rightarrow> world \<Rightarrow> world" where
  "applyEffects es w = foldl (\<lambda>v e. applyEffect e v) w es"

text \<open>A handler has run: its result replaces the trader and its effects are applied.\<close>

definition deliver :: "world \<Rightarrow> trader \<times> effect list \<Rightarrow> world \<times> effect list" where
  "deliver w r = (applyEffects (snd r) (w\<lparr>trader := fst r\<rparr>), snd r)"

text \<open>
  The events and the handler each of them runs; \<open>None\<close> when the event cannot occur in
  the given surroundings.  The reconnect callback carries what \<open>fetchBinanceData\<close>
  returns, and the socket it creates gets the next free name.
\<close>

datatype event =
    SocketOpen sock
  | SocketError
  | SocketClose sock
  | SocketMessage int message
  | Stop
  | ConnectTimeout
  | ReconnectFire "string + candles"

definition worldStep :: "engine \<Rightarrow> event \<Rightarrow> world \<Rightarrow> (world \<times> effect list) option" where
  "worldStep jAlgo ev w =
     (case ev of
        SocketOpen s \<Rightarrow>
          if s < length (sockets w) \<and> sockets w ! s = SockConnecting
          then Some (deliver (w\<lparr>sockets := (sockets w)[s := SockOpen]\<rparr>) (onOpen (trader w), []))
          else None
      | SocketError \<Rightarrow> Some (deliver w (onError (trader w)))
      | SocketClose s \<Rightarrow>
          if s < length (sockets w) \<and> live (sockets w ! s)
          then Some (deliver (w\<lparr>sockets := (sockets w)[s := SockClosed]\<rparr>) (onClose (trader w)))
          else None
      | SocketMessage now msg \<Rightarrow> Some (deliver w (handleMessage jAlgo now msg (trader w)))
      | Stop \<Rightarrow> Some (deliver w (stop (trader w)))
      | ConnectTimeout \<Rightarrow>
          if 0 < connectTimers w
          then Some (deliver (w\<lparr>connectTimers := connectTimers w - 1\<rparr>)
                 (onConnectTimeout (trader w)))
          else None
      | ReconnectFire fetched \<Rightarrow>
          if 0 < reconnectTimers w
          then Some (deliver (w\<lparr>reconnectTimers := reconnectTimers w - 1\<rparr>)
                 (reconnectCallback fetched (length (sockets w)) (trader w)))
          else None)"

fun worldRun :: "engine \<Rightarrow> event list \<Rightarrow> world \<Rightarrow> (world \<times> effect list) option" where
  "worldRun jAlgo [] w = Some (w, [])"
| "worldRun jAlgo (ev # evs) w =
     (case worldStep jAlgo ev w of
        None \<Rightarrow> None
      | Some (w1, e1) \<Rightarrow>
          (case worldRun jAlgo evs w1 of
             None \<Rightarrow> None
           | Some (w2, e2) \<Rightarrow> Some (w2, e1 @ e2)))"

text \<open>The surroundings after \<open>initialize\<close> has called \<open>connectWebSocket\<close>.\<close>

definition startWorld :: "trader \<Rightarrow> world" where
  "startWorld t =
     fst (deliver \<lparr>trader = t, sockets = [], reconnectTimers = 0, connectTimers = 0\<rparr>
            (connectWebSocket 0 t))"

text \<open>
  Connections that fail one after the other, starting with socket \<open>n\<close>: each socket
  closes without having opened, and each reconnect callback fetches the window \<open>cs\<close>
  and creates the next socket.
\<close>

definition failedAttempts :: "candles \<Rightarrow> nat \<Rightarrow> nat \<Rightarrow> event list" where
  "failedAttempts cs n k =
     concat (map (\<lambda>i. [SocketClose i, ReconnectFire (Inr cs)]) [n..<n + k])"

text \<open>
  At most one thing is under way that can lead to a further connection attempt: a
  socket that has not closed, or a reconnect timer that has not fired.
\<close>

definition chain :: "world \<Rightarrow> bool" where
  "chain w \<longleftrightarrow> reconnectTimers w + liveCount (sockets w) \<le> 1"

text \<open>
  The connection has been given up: the attempt counter is at its maximum, every socket
  has closed and no reconnect timer is pending.
\<close>

definition terminated :: "world \<Rightarrow> bool" where
  "terminated w \<longleftrightarrow>
     maxReconnectAttempts (trader w) \<le> reconnectAttempts (trader w)
     \<and> reconnectTimers w = 0 \<and> liveCount (sockets w) = 0"

subsection \<open>Reading the effects\<close>

text \<open>The exit signals among the effects, in order.\<close>

fun exits :: "effect list \<Rightarrow> exit_signal list" where
  "exits [] = []"
| "exits (SendExit e # es) = e # exits es"
| "exits (_ # es) = exits es"

text \<open>A stop update for the given side.\<close>

fun isUpdate :: "string \<Rightarrow> effect \<Rightarrow> bool" where
  "isUpdate side (SendUpdate pos previousStop newStop entry target) = (pos = side)"
| "isUpdate side _ = False"

text \<open>A connection attempt, made (\<open>OpenSocket\<close>) or scheduled (\<open>ReconnectTimer\<close>).\<close>

fun isAttempt :: "effect \<Rightarrow> bool" where
  "isAttempt (ReconnectTimer d) = True"
| "isAttempt (OpenSocket ws) = True"
| "isAttempt _ = False"

text \<open>The number of calls of the engine.\<close>

definition engineCalls :: "effect list \<Rightarrow> nat" where
  "engineCalls es = length (filter (\<lambda>e. e = EngineCall) es)"

text \<open>The open times of the kline events of a list of messages.\<close>

fun klineTimes :: "(int \<times> message) list \<Rightarrow> int list" where
  "klineTimes [] = []"
| "klineTimes ((now, KlineEvent k) # ms) = k_t k # klineTimes ms"
| "klineTimes (_ # ms) = klineTimes ms"

text \<open>The open times of those among them that carry a completed candle.\<close>

fun closedTimes :: "(int \<times> message) list \<Rightarrow> int list" where
  "closedTimes [] = []"
| "closedTimes ((now, KlineEvent k) # ms) =
     (if k_x k then k_t k # closedTimes ms else closedTimes ms)"
| "closedTimes (_ # ms) = closedTimes ms"

text \<open>
  The klines of a list of messages that pass the two tests of \<open>handleMessage\<close> (open
  time different from \<open>lastCandleTime\<close>, flag \<open>x\<close> set), where \<open>lastT\<close> is
  \<open>lastCandleTime\<close> before the first message.
\<close>

fun acceptedKlines :: "int \<Rightarrow> (int \<times> message) list \<Rightarrow> kline list" where
  "acceptedKlines lastT [] = []"
| "acceptedKlines lastT ((now, KlineEvent k) # ms) =
     (if lastT = k_t k then acceptedKlines lastT ms
      else if k_x k then k # acceptedKlines (k_t k) ms
      else acceptedKlines (k_t k) ms)"
| "acceptedKlines lastT (_ # ms) = acceptedKlines lastT ms"

text \<open>The lengths of the seven arrays of a window.\<close>

definition lengths :: "candles \<Rightarrow> nat list" where
  "lengths cs =
     [length (openTime cs), length (open' cs), length (high cs), length (low cs),
      length (close cs), length (volume cs), length (closeTime cs)]"

subsection \<open>Example inputs\<close>

text \<open>A configuration with reward multiple 1.5 and no leverage.\<close>

definition exampleConfig :: config where
  "exampleConfig =
     \<lparr>symbol = ''BTCUSDT'', interval = ''5m'', isFutures = False,
      rewardMultiple = 3 / 2, useLeverage = False, leverageAmount = 2\<rparr>"

text \<open>An engine state with no trade open, and one with a long trade entered at 100,
  stop at 95, target at 105 and 10 at risk.\<close>

definition flatState :: algo_state where
  "flatState =
     \<lparr>inLongTrade = False, inShortTrade = False, longEntryPrice = 0, shortEntryPrice = 0,
      longStopReference = 0, shortStopReference = 0, longTargetLevel = 0,
      shortTargetLevel = 0, riskAmount = 10\<rparr>"

definition longState :: algo_state where
  "longState =
     \<lparr>inLongTrade = True, inShortTrade = False, longEntryPrice = 100, shortEntryPrice = 0,
      longStopReference = 95, shortStopReference = 0, longTargetLevel = 105,
      shortTargetLevel = 0, riskAmount = 10\<rparr>"

text \<open>A short trade entered at 100, stop at 105, target at 95.\<close>

definition shortState :: algo_state where
  "shortState =
     \<lparr>inLongTrade = False, inShortTrade = True, longEntryPrice = 0, shortEntryPrice = 100,
      longStopReference = 0, shortStopReference = 105, longTargetLevel = 0,
      shortTargetLevel = 95, riskAmount = 10\<rparr>"

text \<open>A window of three candles with open times 1, 2, 3; the last candle has the given
  high, low and close.\<close>

definition exampleWindow :: "real \<Rightarrow> real \<Rightarrow> real \<Rightarrow> candles" where
  "exampleWindow h l c =
     \<lparr>openTime = [1, 2, 3], open' = [100, 100, 100], high = [101, 101, h],
      low = [99, 99, l], close = [100, 100, c], volume = [1, 1, 1],
      closeTime = [2, 3, 4]\<rparr>"

text \<open>An engine that returns the same result whatever it is given, and one that throws.\<close>

definition constEngine :: "engine_result \<Rightarrow> engine" where
  "constEngine r = (\<lambda>cs s cfg. Inr r)"

definition failingEngine :: engine where
  "failingEngine = (\<lambda>cs s cfg. Inl ''engine failure'')"

text \<open>A trader after \<open>initialize\<close>: window and engine state present, socket 1 open.\<close>

definition exampleTrader :: "candles \<Rightarrow> algo_state \<Rightarrow> trader" where
  "exampleTrader cs s =
     (LiveTrader exampleConfig)\<lparr>candles := Some cs, state := Some s, socket := Some 1,
        isConnected := True, lastStatsUpdate := Some 1000\<rparr>"

text \<open>A kline event for the candle opening at \<open>ot\<close>, all prices 100, closed or not.\<close>

definition exampleKline :: "int \<Rightarrow> bool \<Rightarrow> kline" where
  "exampleKline ot isClosed =
     \<lparr>k_t = ot, k_T = ot + 1, k_o = 100, k_h = 100, k_l = 100, k_c = 100, k_v = 1,
      k_x = isClosed\<rparr>"

subsection \<open>Frame of the tracker\<close>

text \<open>Two traders that agree on every field except those \<open>processCandle\<close> assigns
  (\<open>state\<close>, the active trades, the trade counter and \<open>lastStatsUpdate\<close>).\<close>

definition sameConnection :: "trader \<Rightarrow> trader \<Rightarrow> bool" where
  "sameConnection t t' \<longleftrightarrow>
     config t' = config t \<and> candles t' = candles t \<and> socket t' = socket t
     \<and> isConnected t' = isConnected t \<and> reconnectAttempts t' = reconnectAttempts t
     \<and> maxReconnectAttempts t' = maxReconnectAttempts t
     \<and> reconnectDelay t' = reconnectDelay t \<and> lastCandleTime t' = lastCandleTime t"

section \<open>Properties\<close>

subsection \<open>Reconnection: auxiliary facts\<close>

lemma attemptReconnect_step:
  "reconnectAttempts t < maxReconnectAttempts t \<Longrightarrow>
   attemptReconnect t =
     (t\<lparr>reconnectAttempts := reconnectAttempts t + 1\<rparr>,
      [ReconnectTimer (min 30000 (reconnectDelay t * 2 ^ reconnectAttempts t))])"
  by (simp add: attemptReconnect_def Let_def)

lemma attemptReconnect_limit:
  "maxReconnectAttempts t \<le> reconnectAttempts t \<Longrightarrow>
   attemptReconnect t = (t, [ErrorLog ''Maximum reconnection attempts reached. Giving up.''])"
  by (simp add: attemptReconnect_def)

lemma ten_Suc: "(10::nat) = Suc (Suc (Suc (Suc (Suc (Suc (Suc (Suc (Suc (Suc 0)))))))))"
  by simp

lemma attemptReconnects_fresh:
  assumes "reconnectAttempts t = 0" "maxReconnectAttempts t = 10" "reconnectDelay t = 1000"
  shows "attemptReconnects 10 t =
     (t\<lparr>reconnectAttempts := 10\<rparr>,
      map ReconnectTimer [1000, 2000, 4000, 8000, 16000, 30000, 30000, 30000, 30000, 30000])"
  unfolding ten_Suc [THEN arg_cong, of "\<lambda>n. attemptReconnects n t"]
  using assms by (simp add: attemptReconnect_step)

subsection \<open>The tracker leaves the window and the connection alone\<close>

lemma sameConnection_refl: "sameConnection t t"
  by (simp add: sameConnection_def)

lemma sameConnection_trans [trans]:
  "sameConnection t t1 \<Longrightarrow> sameConnection t1 t2 \<Longrightarrow> sameConnection t t2"
  by (simp add: sameConnection_def)

lemma closeLong_frame: "sameConnection t (fst (closeLong p r cs t))"
  by (simp add: closeLong_def sameConnection_def split_beta split: option.splits)

lemma closeShort_frame: "sameConnection t (fst (closeShort p r cs t))"
  by (simp add: closeShort_def sameConnection_def split_beta split: option.splits)

lemma openTrade_frame: "sameConnection t (fst (openTrade now r cs t))"
  by (simp add: openTrade_def sameConnection_def Let_def split: option.splits)

lemma updateLongStop_frame: "sameConnection t (fst (updateLongStop p r t))"
  by (simp add: updateLongStop_def sameConnection_def Let_def split: option.splits)

lemma updateShortStop_frame: "sameConnection t (fst (updateShortStop p r t))"
  by (simp add: updateShortStop_def sameConnection_def Let_def split: option.splits)

lemma heartbeat_frame: "sameConnection t (fst (heartbeat now r t))"
  by (simp add: heartbeat_def sameConnection_def Let_def)

text \<open>The body of \<open>processCandle\<close> once the engine has returned, step by step.\<close>

lemma processCandle_Inr:
  assumes "jAlgo (candles t) (state t) (config t) = Inr r" "candles t = Some cs"
  shows "processCandle jAlgo now t =
    (let t1 = t\<lparr>state := Some (res_state r)\<rparr>;
         s2 = closeLong (state t) r cs t1;
         s3 = closeShort (state t) r cs (fst s2);
         s4 = openTrade now r cs (fst s3);
         s5 = updateLongStop (state t) r (fst s4);
         s6 = updateShortStop (state t) r (fst s5);
         s7 = heartbeat now r (fst s6)
     in (fst s7, EngineCall # snd s2 @ snd s3 @ snd s4 @ snd s5 @ snd s6 @ snd s7))"
  using assms by (simp add: processCandle_def Let_def split_beta)

lemma processCandle_frame: "sameConnection t (fst (processCandle jAlgo now t))"
proof (cases "jAlgo (candles t) (state t) (config t)")
  case (Inl err)
  then show ?thesis by (simp add: processCandle_def sameConnection_refl)
next
  case (Inr r)
  show ?thesis
  proof (cases "candles t")
    case None
    with Inr show ?thesis by (simp add: processCandle_def sameConnection_def)
  next
    case (Some cs)
    define t1 where "t1 = t\<lparr>state := Some (res_state r)\<rparr>"
    define t2 where "t2 = fst (closeLong (state t) r cs t1)"
    define t3 where "t3 = fst (closeShort (state t) r cs t2)"
    define t4 where "t4 = fst (openTrade now r cs t3)"
    define t5 where "t5 = fst (updateLongStop (state t) r t4)"
    define t6 where "t6 = fst (updateShortStop (state t) r t5)"
    have "sameConnection t t1"
      by (simp add: sameConnection_def t1_def)
    also have "sameConnection t1 t2"
      unfolding t2_def by (rule closeLong_frame)
    also have "sameConnection t2 t3"
      unfolding t3_def by (rule closeShort_frame)
    also have "sameConnection t3 t4"
      unfolding t4_def by (rule openTrade_frame)
    also have "sameConnection t4 t5"
      unfolding t5_def by (rule updateLongStop_frame)
    also have "sameConnection t5 t6"
      unfolding t6_def by (rule updateShortStop_frame)
    also have "sameConnection t6 (fst (heartbeat now r t6))"
      by (rule heartbeat_frame)
    finally show ?thesis
      by (simp add: processCandle_Inr [where jAlgo = jAlgo and t = t, OF Inr Some] Let_def
          t1_def t2_def t3_def t4_def t5_def t6_def)
  qed
qed

subsection \<open>Reconnection\<close>

lemma attemptReconnects_below:
  "reconnectAttempts t + n \<le> maxReconnectAttempts t \<Longrightarrow>
   attemptReconnects n t =
     (t\<lparr>reconnectAttempts := reconnectAttempts t + n\<rparr>,
      map (\<lambda>i. ReconnectTimer (min 30000 (reconnectDelay t * 2 ^ i)))
        [reconnectAttempts t ..< reconnectAttempts t + n])"
proof (induction n arbitrary: t)
  case 0
  show ?case by simp
next
  case (Suc n)
  let ?t1 = "t\<lparr>reconnectAttempts := reconnectAttempts t + 1\<rparr>"
  from Suc.prems have lt: "reconnectAttempts t < maxReconnectAttempts t" by simp
  from Suc.prems have "reconnectAttempts ?t1 + n \<le> maxReconnectAttempts ?t1" by simp
  from Suc.IH [OF this] attemptReconnect_step [OF lt]
  show ?case by (simp add: upt_rec [of "reconnectAttempts t"])
qed

lemma no_attempt_closeLong: "filter isAttempt (snd (closeLong p r cs t)) = []"
  by (simp add: closeLong_def split_beta split: option.splits)

lemma no_attempt_closeShort: "filter isAttempt (snd (closeShort p r cs t)) = []"
  by (simp add: closeShort_def split_beta split: option.splits)

lemma no_attempt_openTrade: "filter isAttempt (snd (openTrade now r cs t)) = []"
  by (simp add: openTrade_def Let_def split: option.splits)

lemma no_attempt_updateLongStop: "filter isAttempt (snd (updateLongStop p r t)) = []"
  by (simp add: updateLongStop_def Let_def split: option.splits)

lemma no_attempt_updateShortStop: "filter isAttempt (snd (updateShortStop p r t)) = []"
  by (simp add: updateShortStop_def Let_def split: option.splits)

lemma no_attempt_heartbeat: "filter isAttempt (snd (heartbeat now r t)) = []"
  by (simp add: heartbeat_def Let_def)

lemma no_attempt_processCandle: "filter isAttempt (snd (processCandle jAlgo now t)) = []"
proof (cases "jAlgo (candles t) (state t) (config t)")
  case (Inl err)
  then show ?thesis by (simp add: processCandle_def)
next
  case (Inr r)
  show ?thesis
  proof (cases "candles t")
    case None
    with Inr show ?thesis by (simp add: processCandle_def)
  next
    case (Some cs)
    show ?thesis
      by (simp add: processCandle_Inr [where jAlgo = jAlgo and t = t, OF Inr Some] Let_def
          no_attempt_closeLong no_attempt_closeShort no_attempt_openTrade
          no_attempt_updateLongStop no_attempt_updateShortStop no_attempt_heartbeat)
  qed
qed

lemma handleMessage_counters:
  "reconnectAttempts (fst (handleMessage jAlgo now msg t)) = reconnectAttempts t
   \<and> maxReconnectAttempts (fst (handleMessage jAlgo now msg t)) = maxReconnectAttempts t"
proof -
  have "reconnectAttempts (fst (processCandle jAlgo now u)) = reconnectAttempts u
      \<and> maxReconnectAttempts (fst (processCandle jAlgo now u)) = maxReconnectAttempts u" for u
    using processCandle_frame [of u jAlgo now] by (simp add: sameConnection_def)
  then show ?thesis
    by (simp add: handleMessage_def Let_def split: message.splits option.splits)
qed

lemma no_attempt_handleMessage: "filter isAttempt (snd (handleMessage jAlgo now msg t)) = []"
  by (simp add: handleMessage_def Let_def no_attempt_processCandle
      split: message.splits option.splits)

subsection \<open>Sockets and timers\<close>

lemma liveCount_update:
  "i < length xs \<Longrightarrow>
   liveCount (xs[i := y]) + (if live (xs ! i) then 1 else 0)
     = liveCount xs + (if live y then 1 else 0)"
proof (induction xs arbitrary: i)
  case Nil
  then show ?case by simp
next
  case (Cons x xs)
  show ?case
  proof (cases i)
    case 0
    then show ?thesis by (simp add: liveCount_def)
  next
    case (Suc j)
    with Cons.prems have "j < length xs" by simp
    from Cons.IH [OF this] Suc show ?thesis by (simp add: liveCount_def)
  qed
qed

lemma liveCount_zero: "liveCount xs = 0 \<Longrightarrow> i < length xs \<Longrightarrow> \<not> live (xs ! i)"
  by (auto simp add: liveCount_def filter_empty_conv)

lemma liveCount_snoc: "liveCount (xs @ [SockConnecting]) = liveCount xs + 1"
  by (simp add: liveCount_def live_def)

lemma applyEffects_Nil: "applyEffects [] w = w"
  by (simp add: applyEffects_def)

lemma applyEffects_Cons: "applyEffects (e # es) w = applyEffects es (applyEffect e w)"
  by (simp add: applyEffects_def)

lemma applyEffects_append: "applyEffects (es @ fs) w = applyEffects fs (applyEffects es w)"
  by (simp add: applyEffects_def)

lemma applyEffect_neutral:
  assumes "\<not> isAttempt e"
  shows "reconnectTimers (applyEffect e w) = reconnectTimers w
    \<and> liveCount (sockets (applyEffect e w)) = liveCount (sockets w)
    \<and> trader (applyEffect e w) = trader w"
proof (cases e)
  case (TerminateSocket s)
  show ?thesis
  proof (cases "s < length (sockets w) \<and> live (sockets w ! s)")
    case True
    with liveCount_update [of s "sockets w" SockClosing]
    show ?thesis by (simp add: TerminateSocket live_def)
  next
    case False
    then show ?thesis by (auto simp add: TerminateSocket)
  qed
qed (use assms in simp_all)

lemma applyEffects_neutral:
  "filter isAttempt es = [] \<Longrightarrow>
   reconnectTimers (applyEffects es w) = reconnectTimers w
    \<and> liveCount (sockets (applyEffects es w)) = liveCount (sockets w)
    \<and> trader (applyEffects es w) = trader w"
proof (induction es arbitrary: w)
  case Nil
  show ?case by (simp add: applyEffects_Nil)
next
  case (Cons e es)
  from Cons.prems have e: "\<not> isAttempt e" and es: "filter isAttempt es = []"
    by (simp_all split: if_splits)
  from Cons.IH [OF es, of "applyEffect e w"] applyEffect_neutral [OF e, of w]
  show ?case by (simp add: applyEffects_Cons)
qed

lemma deliver_neutral:
  assumes "filter isAttempt (snd r) = []"
  shows "reconnectTimers (fst (deliver w r)) = reconnectTimers w
    \<and> liveCount (sockets (fst (deliver w r))) = liveCount (sockets w)
    \<and> trader (fst (deliver w r)) = fst r \<and> snd (deliver w r) = snd r"
  using applyEffects_neutral [OF assms, of "w\<lparr>trader := fst r\<rparr>"]
  by (simp add: deliver_def)

lemma no_attempt_stop: "filter isAttempt (snd (stop t)) = []"
  by (simp add: stop_def split: option.splits)

lemma no_attempt_onConnectTimeout: "filter isAttempt (snd (onConnectTimeout t)) = []"
  by (simp add: onConnectTimeout_def split: option.splits)

lemma no_attempt_onError: "filter isAttempt (snd (onError t)) = []"
  by (simp add: onError_def)

lemma counters_stop:
  "reconnectAttempts (fst (stop t)) = reconnectAttempts t
   \<and> maxReconnectAttempts (fst (stop t)) = maxReconnectAttempts t"
  by (simp add: stop_def)

lemma counters_onConnectTimeout:
  "reconnectAttempts (fst (onConnectTimeout t)) = reconnectAttempts t
   \<and> maxReconnectAttempts (fst (onConnectTimeout t)) = maxReconnectAttempts t"
  by (simp add: onConnectTimeout_def split: option.splits)

lemma counters_onError:
  "reconnectAttempts (fst (onError t)) = reconnectAttempts t
   \<and> maxReconnectAttempts (fst (onError t)) = maxReconnectAttempts t"
  by (simp add: onError_def)

lemma onClose_cases:
  "(maxReconnectAttempts t \<le> reconnectAttempts t
      \<and> snd (onClose t) = [ErrorLog ''Maximum reconnection attempts reached. Giving up.'']
      \<and> reconnectAttempts (fst (onClose t)) = reconnectAttempts t
      \<and> maxReconnectAttempts (fst (onClose t)) = maxReconnectAttempts t)
   \<or> (\<exists>d. snd (onClose t) = [ReconnectTimer d])"
  by (simp add: onClose_def attemptReconnect_def Let_def)

lemma reconnectCallback_cases:
  "snd (reconnectCallback fetched n t) = [ErrorLog ''Reconnection failed:'']
   \<or> (\<exists>pre. filter isAttempt pre = []
        \<and> snd (reconnectCallback fetched n t) = pre @ [OpenSocket n, ConnectTimer 10000])"
  by (cases fetched)
     (auto simp add: reconnectCallback_def connectWebSocket_def split: option.splits)

text \<open>One event in surroundings where the connection has been given up.\<close>

lemma terminated_step:
  assumes "terminated w" "worldStep jAlgo ev w = Some (w', es)"
  shows "terminated w' \<and> filter isAttempt es = []"
proof -
  from assms(1) have cnt: "maxReconnectAttempts (trader w) \<le> reconnectAttempts (trader w)"
    and tm: "reconnectTimers w = 0" and lv: "liveCount (sockets w) = 0"
    by (simp_all add: terminated_def)
  have neutral: "terminated w' \<and> filter isAttempt es = []"
    if "filter isAttempt (snd r) = []"
       "reconnectAttempts (fst r) = reconnectAttempts (trader w)
        \<and> maxReconnectAttempts (fst r) = maxReconnectAttempts (trader w)"
       "reconnectTimers v = 0" "liveCount (sockets v) = 0" "(w', es) = deliver v r" for v r
  proof -
    from that(5) [symmetric] have "w' = fst (deliver v r)" "es = snd (deliver v r)"
      by simp_all
    with deliver_neutral [OF that(1), of v] that cnt show ?thesis
      by (simp add: terminated_def)
  qed
  show ?thesis
  proof (cases ev)
    case (SocketOpen s)
    with assms(2) have "s < length (sockets w) \<and> sockets w ! s = SockConnecting"
      by (simp add: worldStep_def split: if_splits)
    with liveCount_zero [OF lv, of s] show ?thesis by (simp add: live_def)
  next
    case SocketError
    with assms(2) have "(w', es) = deliver w (onError (trader w))"
      by (simp add: worldStep_def)
    with no_attempt_onError counters_onError tm lv show ?thesis
      by (rule neutral)
  next
    case (SocketClose s)
    with assms(2) have "s < length (sockets w) \<and> live (sockets w ! s)"
      by (simp add: worldStep_def split: if_splits)
    with liveCount_zero [OF lv, of s] show ?thesis by simp
  next
    case (SocketMessage now msg)
    with assms(2) have "(w', es) = deliver w (handleMessage jAlgo now msg (trader w))"
      by (simp add: worldStep_def)
    with no_attempt_handleMessage handleMessage_counters tm lv show ?thesis
      by (rule neutral)
  next
    case Stop
    with assms(2) have "(w', es) = deliver w (stop (trader w))"
      by (simp add: worldStep_def)
    with no_attempt_stop counters_stop tm lv show ?thesis
      by (rule neutral)
  next
    case ConnectTimeout
    with assms(2)
    have "(w', es) = deliver (w\<lparr>connectTimers := connectTimers w - 1\<rparr>)
        (onConnectTimeout (trader w))"
      by (simp add: worldStep_def split: if_splits)
    moreover have "reconnectTimers (w\<lparr>connectTimers := connectTimers w - 1\<rparr>) = 0"
      "liveCount (sockets (w\<lparr>connectTimers := connectTimers w - 1\<rparr>)) = 0"
      using tm lv by simp_all
    ultimately show ?thesis
      using no_attempt_onConnectTimeout counters_onConnectTimeout
      by (intro neutral [where r = "onConnectTimeout (trader w)"
            and v = "w\<lparr>connectTimers := connectTimers w - 1\<rparr>"]) simp_all
  next
    case (ReconnectFire fetched)
    with assms(2) tm show ?thesis by (simp add: worldStep_def)
  qed
qed

text \<open>One event keeps the chain single.\<close>

lemma chain_deliver_neutral:
  assumes "filter isAttempt (snd r) = []"
    "reconnectTimers v + liveCount (sockets v) \<le> 1"
  shows "chain (fst (deliver v r))"
  using deliver_neutral [OF assms(1), of v] assms(2) by (simp add: chain_def)

lemma chain_step:
  assumes "chain w" "worldStep jAlgo ev w = Some (w', es)"
  shows "chain w'"
proof -
  from assms(1) have ch: "reconnectTimers w + liveCount (sockets w) \<le> 1"
    by (simp add: chain_def)
  show ?thesis
  proof (cases ev)
    case (SocketOpen s)
    with assms(2) have en: "s < length (sockets w)" "sockets w ! s = SockConnecting"
      and w': "w' = fst (deliver (w\<lparr>sockets := (sockets w)[s := SockOpen]\<rparr>)
          (onOpen (trader w), []))"
      by (simp_all add: worldStep_def split: if_splits)
    from liveCount_update [OF en(1), of SockOpen] en(2)
    have "liveCount ((sockets w)[s := SockOpen]) = liveCount (sockets w)"
      by (simp add: live_def)
    with ch show ?thesis
      unfolding w' by (intro chain_deliver_neutral) simp_all
  next
    case SocketError
    with assms(2) have w': "w' = fst (deliver w (onError (trader w)))"
      by (simp add: worldStep_def)
    from no_attempt_onError ch show ?thesis
      unfolding w' by (rule chain_deliver_neutral)
  next
    case (SocketClose s)
    with assms(2) have en: "s < length (sockets w)" "live (sockets w ! s)"
      and w': "w' = fst (deliver (w\<lparr>sockets := (sockets w)[s := SockClosed]\<rparr>)
          (onClose (trader w)))"
      by (simp_all add: worldStep_def split: if_splits)
    let ?v = "w\<lparr>sockets := (sockets w)[s := SockClosed]\<rparr>"
    from liveCount_update [OF en(1), of SockClosed] en(2)
    have lc: "liveCount ((sockets w)[s := SockClosed]) + 1 = liveCount (sockets w)"
      by (simp add: live_def)
    from onClose_cases [of "trader w"] show ?thesis
    proof
      assume "maxReconnectAttempts (trader w) \<le> reconnectAttempts (trader w)
        \<and> snd (onClose (trader w)) = [ErrorLog ''Maximum reconnection attempts reached. Giving up.'']
        \<and> reconnectAttempts (fst (onClose (trader w))) = reconnectAttempts (trader w)
        \<and> maxReconnectAttempts (fst (onClose (trader w))) = maxReconnectAttempts (trader w)"
      then have "filter isAttempt (snd (onClose (trader w))) = []" by simp
      moreover from ch lc have "reconnectTimers ?v + liveCount (sockets ?v) \<le> 1" by simp
      ultimately show ?thesis unfolding w' by (rule chain_deliver_neutral)
    next
      assume "\<exists>d. snd (onClose (trader w)) = [ReconnectTimer d]"
      then obtain d where "snd (onClose (trader w)) = [ReconnectTimer d]" ..
      with ch lc show ?thesis
        unfolding w'
        by (simp add: deliver_def applyEffects_Cons applyEffects_Nil chain_def)
    qed
  next
    case (SocketMessage now msg)
    with assms(2) have w': "w' = fst (deliver w (handleMessage jAlgo now msg (trader w)))"
      by (simp add: worldStep_def)
    from no_attempt_handleMessage ch show ?thesis
      unfolding w' by (rule chain_deliver_neutral)
  next
    case Stop
    with assms(2) have w': "w' = fst (deliver w (stop (trader w)))"
      by (simp add: worldStep_def)
    from no_attempt_stop ch show ?thesis
      unfolding w' by (rule chain_deliver_neutral)
  next
    case ConnectTimeout
    with assms(2)
    have w': "w' = fst (deliver (w\<lparr>connectTimers := connectTimers w - 1\<rparr>)
        (onConnectTimeout (trader w)))"
      by (simp add: worldStep_def split: if_splits)
    from ch show ?thesis
      unfolding w' by (intro chain_deliver_neutral no_attempt_onConnectTimeout) simp
  next
    case (ReconnectFire fetched)
    with assms(2) have en: "0 < reconnectTimers w"
      and w': "w' = fst (deliver (w\<lparr>reconnectTimers := reconnectTimers w - 1\<rparr>)
          (reconnectCallback fetched (length (sockets w)) (trader w)))"
      by (simp_all add: worldStep_def split: if_splits)
    let ?v = "w\<lparr>reconnectTimers := reconnectTimers w - 1\<rparr>"
    let ?r = "reconnectCallback fetched (length (sockets w)) (trader w)"
    from en ch have v: "reconnectTimers ?v = 0" "liveCount (sockets ?v) = 0" by simp_all
    from reconnectCallback_cases [of fetched "length (sockets w)" "trader w"]
    show ?thesis
    proof
      assume "snd ?r = [ErrorLog ''Reconnection failed:'']"
      then have "filter isAttempt (snd ?r) = []" by simp
      moreover from v have "reconnectTimers ?v + liveCount (sockets ?v) \<le> 1" by simp
      ultimately show ?thesis unfolding w' by (rule chain_deliver_neutral)
    next
      assume "\<exists>pre. filter isAttempt pre = []
        \<and> snd ?r = pre @ [OpenSocket (length (sockets w)), ConnectTimer 10000]"
      then obtain pre where pre: "filter isAttempt pre = []"
        and r: "snd ?r = pre @ [OpenSocket (length (sockets w)), ConnectTimer 10000]"
        by blast
      from applyEffects_neutral [OF pre, of "?v\<lparr>trader := fst ?r\<rparr>"] v
      have "reconnectTimers (applyEffects pre (?v\<lparr>trader := fst ?r\<rparr>)) = 0"
        "liveCount (sockets (applyEffects pre (?v\<lparr>trader := fst ?r\<rparr>))) = 0"
        by simp_all
      then show ?thesis
        unfolding w'
        by (simp add: deliver_def r applyEffects_append applyEffects_Cons applyEffects_Nil
            chain_def liveCount_snoc)
    qed
  qed
qed

lemma chain_run:
  "chain w \<Longrightarrow> worldRun jAlgo evs w = Some (w', es) \<Longrightarrow> chain w'"
proof (induction evs arbitrary: w es)
  case Nil
  then show ?case by simp
next
  case (Cons ev evs)
  from Cons.prems(2) obtain w1 e1 e2 where 1: "worldStep jAlgo ev w = Some (w1, e1)"
    and 2: "worldRun jAlgo evs w1 = Some (w', e2)"
    by (auto split: option.splits prod.splits)
  from chain_step [OF Cons.prems(1) 1] have "chain w1" .
  from Cons.IH [OF this 2] show ?case .
qed

lemma terminated_run:
  "terminated w \<Longrightarrow> worldRun jAlgo evs w = Some (w', es) \<Longrightarrow>
   terminated w' \<and> filter isAttempt es = []"
proof (induction evs arbitrary: w es)
  case Nil
  then show ?case by simp
next
  case (Cons ev evs)
  from Cons.prems(2) obtain w1 e1 e2 where 1: "worldStep jAlgo ev w = Some (w1, e1)"
    and 2: "worldRun jAlgo evs w1 = Some (w', e2)" and 3: "es = e1 @ e2"
    by (auto split: option.splits prod.splits)
  from terminated_step [OF Cons.prems(1) 1]
  have t1: "terminated w1" and a1: "filter isAttempt e1 = []" by simp_all
  from Cons.IH [OF t1 2] a1 3 show ?case by simp
qed

lemma close_gives_up:
  assumes "chain w" "maxReconnectAttempts (trader w) \<le> reconnectAttempts (trader w)"
    "worldStep jAlgo (SocketClose s) w = Some (w', es)"
  shows "terminated w' \<and> filter isAttempt es = []"
proof -
  from assms(3) have en: "s < length (sockets w)" "live (sockets w ! s)"
    and w': "w' = fst (deliver (w\<lparr>sockets := (sockets w)[s := SockClosed]\<rparr>)
        (onClose (trader w)))"
    and es: "es = snd (deliver (w\<lparr>sockets := (sockets w)[s := SockClosed]\<rparr>)
        (onClose (trader w)))"
    by (simp_all add: worldStep_def split: if_splits)
  let ?v = "w\<lparr>sockets := (sockets w)[s := SockClosed]\<rparr>"
  from liveCount_update [OF en(1), of SockClosed] en(2)
  have "liveCount ((sockets w)[s := SockClosed]) + 1 = liveCount (sockets w)"
    by (simp add: live_def)
  with assms(1) have v: "reconnectTimers ?v = 0" "liveCount (sockets ?v) = 0"
    by (simp_all add: chain_def)
  from assms(2) have r: "snd (onClose (trader w))
      = [ErrorLog ''Maximum reconnection attempts reached. Giving up.'']"
    "fst (onClose (trader w)) = (trader w)\<lparr>isConnected := False\<rparr>"
    by (simp_all add: onClose_def attemptReconnect_def)
  then have "filter isAttempt (snd (onClose (trader w))) = []" by simp
  from deliver_neutral [OF this, of ?v] v r assms(2) show ?thesis
    unfolding w' es by (simp add: terminated_def)
qed

lemma chain_startWorld: "chain (startWorld t)"
  by (simp add: startWorld_def deliver_def connectWebSocket_def applyEffects_append
      applyEffects_Cons applyEffects_Nil chain_def liveCount_def live_def
      split: option.splits)

text \<open>
  C4.  For the reconnect attempts \<open>k = 1, \<dots>, 10\<close> with base delay 1000 ms, the delay
  computed by \<open>attemptReconnect\<close> before attempt \<open>k\<close> is \<open>min 30000 (1000 * 2^(k-1))\<close>,
  so that ten attempts in a row wait 1000, 2000, 4000, 8000, 16000 and then five times
  30000 ms; the \<open>open\<close> handler, run on every successful connection, puts the attempt
  counter and the base delay back to the values the constructor gave them.
\<close>

theorem backoff_delays:
  "(\<forall>k. 1 \<le> k \<and> k \<le> 10 \<and> reconnectAttempts t = k - 1 \<and> maxReconnectAttempts t = 10
        \<and> reconnectDelay t = 1000 \<longrightarrow>
      attemptReconnect t =
        (t\<lparr>reconnectAttempts := k\<rparr>, [ReconnectTimer (min 30000 (1000 * 2 ^ (k - 1)))]))
   \<and> (reconnectAttempts t = 0 \<and> maxReconnectAttempts t = 10 \<and> reconnectDelay t = 1000 \<longrightarrow>
      snd (attemptReconnects 10 t) =
        map ReconnectTimer [1000, 2000, 4000, 8000, 16000, 30000, 30000, 30000, 30000, 30000])
   \<and> onOpen t = t\<lparr>isConnected := True, reconnectAttempts := reconnectAttempts (LiveTrader cfg),
                   reconnectDelay := reconnectDelay (LiveTrader cfg)\<rparr>
   \<and> reconnectAttempts (LiveTrader cfg) = 0 \<and> reconnectDelay (LiveTrader cfg) = 1000"
proof (intro conjI allI impI)
  fix k
  assume h: "1 \<le> k \<and> k \<le> 10 \<and> reconnectAttempts t = k - 1 \<and> maxReconnectAttempts t = 10
        \<and> reconnectDelay t = 1000"
  then have "reconnectAttempts t < maxReconnectAttempts t" by arith
  from attemptReconnect_step [OF this] h
  have "attemptReconnect t =
     (t\<lparr>reconnectAttempts := k - 1 + 1\<rparr>, [ReconnectTimer (min 30000 (1000 * 2 ^ (k - 1)))])"
    by simp
  moreover from h have "k - 1 + 1 = k" by arith
  ultimately show "attemptReconnect t =
        (t\<lparr>reconnectAttempts := k\<rparr>, [ReconnectTimer (min 30000 (1000 * 2 ^ (k - 1)))])"
    by (simp only:)
next
  assume "reconnectAttempts t = 0 \<and> maxReconnectAttempts t = 10 \<and> reconnectDelay t = 1000"
  then show "snd (attemptReconnects 10 t) =
        map ReconnectTimer [1000, 2000, 4000, 8000, 16000, 30000, 30000, 30000, 30000, 30000]"
    by (simp only: attemptReconnects_fresh snd_conv)
qed (simp_all add: onOpen_def LiveTrader_def)

theorem backoff_delays_witness:
  "attemptReconnect ((LiveTrader exampleConfig)\<lparr>reconnectAttempts := 5\<rparr>) =
     ((LiveTrader exampleConfig)\<lparr>reconnectAttempts := 6\<rparr>, [ReconnectTimer 30000])
   \<and> snd (attemptReconnects 10 (LiveTrader exampleConfig)) =
       map ReconnectTimer [1000, 2000, 4000, 8000, 16000, 30000, 30000, 30000, 30000, 30000]
   \<and> onOpen ((LiveTrader exampleConfig)\<lparr>reconnectAttempts := 5\<rparr>)
       = (LiveTrader exampleConfig)\<lparr>isConnected := True\<rparr>"
proof -
  let ?t = "(LiveTrader exampleConfig)\<lparr>reconnectAttempts := 5\<rparr>"
  have a: "1 \<le> (6::nat) \<and> (6::nat) \<le> 10 \<and> reconnectAttempts ?t = 6 - 1
      \<and> maxReconnectAttempts ?t = 10 \<and> reconnectDelay ?t = 1000"
    by (simp add: LiveTrader_def)
  have b: "reconnectAttempts (LiveTrader exampleConfig) = 0
      \<and> maxReconnectAttempts (LiveTrader exampleConfig) = 10
      \<and> reconnectDelay (LiveTrader exampleConfig) = 1000"
    by (simp add: LiveTrader_def)
  have c: "min 30000 (1000 * 2 ^ (6 - 1)) = (30000::nat)" by simp
  from backoff_delays [of ?t exampleConfig] a
  have "attemptReconnect ?t =
      (?t\<lparr>reconnectAttempts := 6\<rparr>, [ReconnectTimer (min 30000 (1000 * 2 ^ (6 - 1)))])"
    by blast
  then have 1: "attemptReconnect ?t = (?t\<lparr>reconnectAttempts := 6\<rparr>, [ReconnectTimer 30000])"
    by (simp only: c)
  from backoff_delays [of "LiveTrader exampleConfig" exampleConfig] b
  have 2: "snd (attemptReconnects 10 (LiveTrader exampleConfig)) =
       map ReconnectTimer [1000, 2000, 4000, 8000, 16000, 30000, 30000, 30000, 30000, 30000]"
    by blast
  from backoff_delays [of ?t exampleConfig]
  have 3: "onOpen ?t = (LiveTrader exampleConfig)\<lparr>isConnected := True\<rparr>"
    by (simp add: LiveTrader_def)
  from 1 2 3 show ?thesis by simp
qed

lemma worldRun_append:
  "worldRun jAlgo (evs @ fvs) w =
     (case worldRun jAlgo evs w of
        None \<Rightarrow> None
      | Some (w1, e1) \<Rightarrow>
          (case worldRun jAlgo fvs w1 of
             None \<Rightarrow> None
           | Some (w2, e2) \<Rightarrow> Some (w2, e1 @ e2)))"
  by (induction evs arbitrary: w) (auto split: option.splits)

lemma terminated_disabled:
  assumes "terminated w"
  shows "worldStep jAlgo (SocketOpen s) w = None
    \<and> worldStep jAlgo (SocketClose s) w = None
    \<and> worldStep jAlgo (ReconnectFire fetched) w = None"
proof -
  from assms have tm: "reconnectTimers w = 0" and lv: "liveCount (sockets w) = 0"
    by (simp_all add: terminated_def)
  from liveCount_zero [OF lv, of s] tm show ?thesis
    by (auto simp add: worldStep_def live_def)
qed

text \<open>One failed connection, then several.\<close>

lemma replicate_snoc_update: "(replicate n a @ [b])[n := c] = replicate n a @ [c]"
  by (simp add: list_update_append)

lemma replicate_snoc_nth: "(replicate n a @ [b]) ! n = b"
  by (simp add: nth_append)

lemma terminate_all_closed:
  "sockets v = replicate n SockClosed \<Longrightarrow> applyEffect (TerminateSocket s) v = v"
  by (auto simp add: live_def)

lemma close_connecting:
  assumes "sockets w = replicate n SockClosed @ [SockConnecting]" "reconnectTimers w = 0"
    "reconnectAttempts (trader w) < maxReconnectAttempts (trader w)"
  shows "\<exists>w' es. worldStep jAlgo (SocketClose n) w = Some (w', es)
    \<and> sockets w' = replicate (Suc n) SockClosed
    \<and> reconnectTimers w' = 1
    \<and> reconnectAttempts (trader w') = reconnectAttempts (trader w) + 1
    \<and> maxReconnectAttempts (trader w') = maxReconnectAttempts (trader w)
    \<and> length (filter isAttempt es) = 1"
proof -
  let ?v = "w\<lparr>sockets := (sockets w)[n := SockClosed]\<rparr>"
  let ?r = "onClose (trader w)"
  from assms(1) have st: "worldStep jAlgo (SocketClose n) w = Some (deliver ?v ?r)"
    by (simp add: worldStep_def replicate_snoc_nth live_def)
  from assms have "sockets (fst (deliver ?v ?r)) = replicate (Suc n) SockClosed
    \<and> reconnectTimers (fst (deliver ?v ?r)) = 1
    \<and> reconnectAttempts (trader (fst (deliver ?v ?r))) = reconnectAttempts (trader w) + 1
    \<and> maxReconnectAttempts (trader (fst (deliver ?v ?r))) = maxReconnectAttempts (trader w)
    \<and> length (filter isAttempt (snd (deliver ?v ?r))) = 1"
    by (simp add: deliver_def onClose_def attemptReconnect_def Let_def applyEffects_Cons
        applyEffects_Nil replicate_snoc_update replicate_append_same)
  with st show ?thesis
    by (intro exI [of _ "fst (deliver ?v ?r)"] exI [of _ "snd (deliver ?v ?r)"]) simp
qed

lemma reconnect_all_closed:
  assumes "sockets w = replicate m SockClosed" "0 < reconnectTimers w"
  shows "\<exists>w' es. worldStep jAlgo (ReconnectFire (Inr cs)) w = Some (w', es)
    \<and> sockets w' = replicate m SockClosed @ [SockConnecting]
    \<and> reconnectTimers w' = reconnectTimers w - 1
    \<and> reconnectAttempts (trader w') = reconnectAttempts (trader w)
    \<and> maxReconnectAttempts (trader w') = maxReconnectAttempts (trader w)
    \<and> length (filter isAttempt es) = 1"
proof -
  let ?v = "w\<lparr>reconnectTimers := reconnectTimers w - 1\<rparr>"
  let ?r = "reconnectCallback (Inr cs) (length (sockets w)) (trader w)"
  from assms(2) have st: "worldStep jAlgo (ReconnectFire (Inr cs)) w = Some (deliver ?v ?r)"
    by (simp add: worldStep_def)
  from assms(1) have "sockets (fst (deliver ?v ?r)) = replicate m SockClosed @ [SockConnecting]
    \<and> reconnectTimers (fst (deliver ?v ?r)) = reconnectTimers w - 1
    \<and> reconnectAttempts (trader (fst (deliver ?v ?r))) = reconnectAttempts (trader w)
    \<and> maxReconnectAttempts (trader (fst (deliver ?v ?r))) = maxReconnectAttempts (trader w)
    \<and> length (filter isAttempt (snd (deliver ?v ?r))) = 1"
    by (cases "socket (trader w)")
       (auto simp add: deliver_def reconnectCallback_def connectWebSocket_def
          applyEffects_Cons applyEffects_Nil live_def)
  with st show ?thesis
    by (intro exI [of _ "fst (deliver ?v ?r)"] exI [of _ "snd (deliver ?v ?r)"]) simp
qed

lemma failed_attempt:
  assumes "sockets w = replicate n SockClosed @ [SockConnecting]" "reconnectTimers w = 0"
    "reconnectAttempts (trader w) < maxReconnectAttempts (trader w)"
  shows "\<exists>w' es. worldRun jAlgo [SocketClose n, ReconnectFire (Inr cs)] w = Some (w', es)
    \<and> sockets w' = replicate (Suc n) SockClosed @ [SockConnecting]
    \<and> reconnectTimers w' = 0
    \<and> reconnectAttempts (trader w') = reconnectAttempts (trader w) + 1
    \<and> maxReconnectAttempts (trader w') = maxReconnectAttempts (trader w)
    \<and> length (filter isAttempt es) = 2"
proof -
  from close_connecting [OF assms, of jAlgo]
  obtain w1 e1 where 1: "worldStep jAlgo (SocketClose n) w = Some (w1, e1)"
    and p1: "sockets w1 = replicate (Suc n) SockClosed" "reconnectTimers w1 = 1"
      "reconnectAttempts (trader w1) = reconnectAttempts (trader w) + 1"
      "maxReconnectAttempts (trader w1) = maxReconnectAttempts (trader w)"
      "length (filter isAttempt e1) = 1"
    by blast
  from p1(2) have "0 < reconnectTimers w1" by simp
  from reconnect_all_closed [OF p1(1) this, of jAlgo cs]
  obtain w2 e2 where 2: "worldStep jAlgo (ReconnectFire (Inr cs)) w1 = Some (w2, e2)"
    and p2: "sockets w2 = replicate (Suc n) SockClosed @ [SockConnecting]"
      "reconnectTimers w2 = reconnectTimers w1 - 1"
      "reconnectAttempts (trader w2) = reconnectAttempts (trader w1)"
      "maxReconnectAttempts (trader w2) = maxReconnectAttempts (trader w1)"
      "length (filter isAttempt e2) = 1"
    by blast
  from 1 2 have "worldRun jAlgo [SocketClose n, ReconnectFire (Inr cs)] w = Some (w2, e1 @ e2)"
    by simp
  with p1 p2 show ?thesis by simp
qed

lemma failed_attempts:
  assumes "sockets w = replicate n SockClosed @ [SockConnecting]" "reconnectTimers w = 0"
    "reconnectAttempts (trader w) + k \<le> maxReconnectAttempts (trader w)"
  shows "\<exists>w' es. worldRun jAlgo (failedAttempts cs n k) w = Some (w', es)
    \<and> sockets w' = replicate (n + k) SockClosed @ [SockConnecting]
    \<and> reconnectTimers w' = 0
    \<and> reconnectAttempts (trader w') = reconnectAttempts (trader w) + k
    \<and> maxReconnectAttempts (trader w') = maxReconnectAttempts (trader w)
    \<and> length (filter isAttempt es) = 2 * k"
  using assms
proof (induction k arbitrary: w n)
  case 0
  then show ?case by (simp add: failedAttempts_def)
next
  case (Suc k)
  from Suc.prems(3)
  have lt: "reconnectAttempts (trader w) < maxReconnectAttempts (trader w)" by simp
  from failed_attempt [OF Suc.prems(1,2) lt, of jAlgo cs]
  obtain w1 e1 where 1: "worldRun jAlgo [SocketClose n, ReconnectFire (Inr cs)] w = Some (w1, e1)"
    and s1: "sockets w1 = replicate (Suc n) SockClosed @ [SockConnecting]"
    and t1: "reconnectTimers w1 = 0"
    and a1: "reconnectAttempts (trader w1) = reconnectAttempts (trader w) + 1"
    and m1: "maxReconnectAttempts (trader w1) = maxReconnectAttempts (trader w)"
    and l1: "length (filter isAttempt e1) = 2"
    by blast
  from Suc.prems(3) a1 m1
  have "reconnectAttempts (trader w1) + k \<le> maxReconnectAttempts (trader w1)" by simp
  from Suc.IH [OF s1 t1 this]
  obtain w2 e2 where 2: "worldRun jAlgo (failedAttempts cs (Suc n) k) w1 = Some (w2, e2)"
    and r2: "sockets w2 = replicate (Suc n + k) SockClosed @ [SockConnecting]"
      "reconnectTimers w2 = 0"
      "reconnectAttempts (trader w2) = reconnectAttempts (trader w1) + k"
      "maxReconnectAttempts (trader w2) = maxReconnectAttempts (trader w1)"
      "length (filter isAttempt e2) = 2 * k"
    by blast
  have ev: "failedAttempts cs n (Suc k)
      = [SocketClose n, ReconnectFire (Inr cs)] @ failedAttempts cs (Suc n) k"
    by (simp add: failedAttempts_def upt_conv_Cons)
  from 1 2 have "worldRun jAlgo (failedAttempts cs n (Suc k)) w = Some (w2, e1 @ e2)"
    unfolding ev worldRun_append by simp
  with r2 a1 m1 l1 show ?case by simp
qed

lemma startWorld_fields:
  "sockets (startWorld t) = replicate 0 SockClosed @ [SockConnecting]
   \<and> reconnectTimers (startWorld t) = 0
   \<and> reconnectAttempts (trader (startWorld t)) = reconnectAttempts t
   \<and> maxReconnectAttempts (trader (startWorld t)) = maxReconnectAttempts t"
  by (simp add: startWorld_def deliver_def connectWebSocket_def applyEffects_append
      applyEffects_Cons applyEffects_Nil split: option.splits)

lemma ten_failures_terminate:
  assumes "reconnectAttempts t = 0" "maxReconnectAttempts t = 10"
  shows "\<exists>w es. worldRun jAlgo (failedAttempts cs 0 10 @ [SocketClose 10]) (startWorld t)
        = Some (w, es)
     \<and> terminated w \<and> length (filter isAttempt es) = 20"
proof -
  note sf = startWorld_fields [of t]
  from sf assms
  have "reconnectAttempts (trader (startWorld t)) + 10 \<le> maxReconnectAttempts (trader (startWorld t))"
    by simp
  from failed_attempts [OF sf [THEN conjunct1] sf [THEN conjunct2, THEN conjunct1] this,
      of jAlgo cs]
  obtain w1 e1 where 1: "worldRun jAlgo (failedAttempts cs 0 10) (startWorld t) = Some (w1, e1)"
    and s1: "sockets w1 = replicate (0 + 10) SockClosed @ [SockConnecting]"
    and c1: "reconnectAttempts (trader w1) = reconnectAttempts (trader (startWorld t)) + 10"
      "maxReconnectAttempts (trader w1) = maxReconnectAttempts (trader (startWorld t))"
    and l1: "length (filter isAttempt e1) = 2 * 10"
    by blast
  from chain_run [OF chain_startWorld 1] have ch: "chain w1" .
  from c1 sf assms
  have mx: "maxReconnectAttempts (trader w1) \<le> reconnectAttempts (trader w1)" by simp
  let ?v = "w1\<lparr>sockets := (sockets w1)[10 := SockClosed]\<rparr>"
  from s1 replicate_snoc_nth [of 10 SockClosed SockConnecting]
  have st: "worldStep jAlgo (SocketClose 10) w1 = Some (deliver ?v (onClose (trader w1)))"
    by (simp add: worldStep_def live_def)
  have "deliver ?v (onClose (trader w1))
      = (fst (deliver ?v (onClose (trader w1))), snd (deliver ?v (onClose (trader w1))))"
    by simp
  with st have st': "worldStep jAlgo (SocketClose 10) w1
      = Some (fst (deliver ?v (onClose (trader w1))), snd (deliver ?v (onClose (trader w1))))"
    by simp
  from close_gives_up [OF ch mx st']
  have t2: "terminated (fst (deliver ?v (onClose (trader w1))))"
    and a2: "filter isAttempt (snd (deliver ?v (onClose (trader w1)))) = []"
    by simp_all
  from 1 st' have "worldRun jAlgo (failedAttempts cs 0 10 @ [SocketClose 10]) (startWorld t)
      = Some (fst (deliver ?v (onClose (trader w1))),
              e1 @ snd (deliver ?v (onClose (trader w1))))"
    by (simp add: worldRun_append split_beta)
  with t2 a2 l1 show ?thesis by simp
qed

text \<open>
  C5.  Once the attempt counter has reached the maximum of 10, the next call of
  \<open>attemptReconnect\<close> (the 11th) sets no timer and changes nothing.  In the surroundings
  of the trader: ten connections that fail one after the other use up the ten attempts,
  and when the socket of the tenth attempt closes as well the connection is terminated
  (counter at the maximum, every socket closed, no reconnect timer pending).  The same
  holds whenever a socket closes with the counter at its maximum, since from
  \<open>initialize\<close> on at most one socket or reconnect timer is under way.  Once the
  connection is terminated, the events that run \<open>onOpen\<close>, \<open>onClose\<close> or the reconnect
  callback cannot occur, and after any sequence of events that can occur the connection
  is still terminated and no connection attempt has been made or scheduled.
\<close>

theorem reconnect_gives_up:
  "(reconnectAttempts t = 0 \<and> maxReconnectAttempts t = 10 \<longrightarrow>
      length (filter isAttempt (snd (attemptReconnects 10 t))) = 10
      \<and> reconnectAttempts (fst (attemptReconnects 10 t)) = 10
      \<and> maxReconnectAttempts (fst (attemptReconnects 10 t)) = 10
      \<and> (\<exists>w es. worldRun jAlgo (failedAttempts cs 0 10 @ [SocketClose 10]) (startWorld t)
              = Some (w, es)
            \<and> terminated w \<and> length (filter isAttempt es) = 20))
   \<and> (maxReconnectAttempts t \<le> reconnectAttempts t \<longrightarrow>
      attemptReconnect t =
        (t, [ErrorLog ''Maximum reconnection attempts reached. Giving up.'']))
   \<and> chain (startWorld t)
   \<and> (chain w \<and> worldRun jAlgo evs w = Some (w', es) \<longrightarrow> chain w')
   \<and> (chain w \<and> maxReconnectAttempts (trader w) \<le> reconnectAttempts (trader w)
        \<and> worldStep jAlgo (SocketClose s) w = Some (w', es) \<longrightarrow>
      terminated w' \<and> filter isAttempt es = [])
   \<and> (terminated w \<longrightarrow>
      worldStep jAlgo (SocketOpen s) w = None \<and> worldStep jAlgo (SocketClose s) w = None
      \<and> worldStep jAlgo (ReconnectFire fetched) w = None)
   \<and> (terminated w \<and> worldRun jAlgo evs w = Some (w', es) \<longrightarrow>
      terminated w' \<and> filter isAttempt es = [])"
proof (intro conjI impI)
  assume h: "reconnectAttempts t = 0 \<and> maxReconnectAttempts t = 10"
  then have "reconnectAttempts t + 10 \<le> maxReconnectAttempts t" by simp
  note eq = attemptReconnects_below [OF this]
  from eq show "length (filter isAttempt (snd (attemptReconnects 10 t))) = 10"
    by (simp add: filter_map comp_def)
  from eq h show "reconnectAttempts (fst (attemptReconnects 10 t)) = 10" by simp
  from eq h show "maxReconnectAttempts (fst (attemptReconnects 10 t)) = 10" by simp
  from h show "\<exists>w es. worldRun jAlgo (failedAttempts cs 0 10 @ [SocketClose 10]) (startWorld t)
              = Some (w, es)
            \<and> terminated w \<and> length (filter isAttempt es) = 20"
    by (simp add: ten_failures_terminate)
next
  assume "maxReconnectAttempts t \<le> reconnectAttempts t"
  then show "attemptReconnect t =
        (t, [ErrorLog ''Maximum reconnection attempts reached. Giving up.''])"
    by (rule attemptReconnect_limit)
next
  show "chain (startWorld t)" by (rule chain_startWorld)
next
  assume "chain w \<and> worldRun jAlgo evs w = Some (w', es)"
  then show "chain w'" using chain_run by blast
next
  assume h: "chain w \<and> maxReconnectAttempts (trader w) \<le> reconnectAttempts (trader w)
        \<and> worldStep jAlgo (SocketClose s) w = Some (w', es)"
  with close_gives_up [of w jAlgo s w' es]
  show "terminated w'" and "filter isAttempt es = []" by simp_all
next
  assume h: "terminated w"
  from terminated_disabled [OF h, of jAlgo s fetched]
  show "worldStep jAlgo (SocketOpen s) w = None"
    and "worldStep jAlgo (SocketClose s) w = None"
    and "worldStep jAlgo (ReconnectFire fetched) w = None"
    by simp_all
next
  assume h: "terminated w \<and> worldRun jAlgo evs w = Some (w', es)"
  with terminated_run [of w jAlgo evs w' es]
  show "terminated w'" and "filter isAttempt es = []" by simp_all
qed

theorem reconnect_gives_up_witness:
  "(\<exists>w es. worldRun failingEngine
        (failedAttempts (exampleWindow 101 99 100) 0 10 @ [SocketClose 10])
        (startWorld (LiveTrader exampleConfig)) = Some (w, es)
      \<and> terminated w \<and> length (filter isAttempt es) = 20
      \<and> worldStep failingEngine (SocketOpen 10) w = None
      \<and> worldStep failingEngine (ReconnectFire (Inr (exampleWindow 101 99 100))) w = None
      \<and> (\<exists>w' es'. worldRun failingEngine
             [Stop, SocketError, SocketMessage 5 (KlineEvent (exampleKline 4 True))] w
             = Some (w', es')
           \<and> terminated w' \<and> filter isAttempt es' = []))
   \<and> (\<exists>w es. worldStep failingEngine (SocketClose 0)
        (startWorld ((LiveTrader exampleConfig)\<lparr>reconnectAttempts := 10\<rparr>)) = Some (w, es)
      \<and> terminated w \<and> filter isAttempt es = [])
   \<and> attemptReconnect ((LiveTrader exampleConfig)\<lparr>reconnectAttempts := 10\<rparr>) =
       ((LiveTrader exampleConfig)\<lparr>reconnectAttempts := 10\<rparr>,
        [ErrorLog ''Maximum reconnection attempts reached. Giving up.''])"
proof -
  let ?t = "LiveTrader exampleConfig"
  let ?u = "(LiveTrader exampleConfig)\<lparr>reconnectAttempts := 10\<rparr>"
  let ?cs = "exampleWindow 101 99 100"
  let ?evs = "[Stop, SocketError, SocketMessage 5 (KlineEvent (exampleKline 4 True))]"
  have a: "reconnectAttempts ?t = 0 \<and> maxReconnectAttempts ?t = 10"
    by (simp add: LiveTrader_def)
  from reconnect_gives_up [of ?t failingEngine ?cs] a
  obtain w es where run: "worldRun failingEngine (failedAttempts ?cs 0 10 @ [SocketClose 10])
        (startWorld ?t) = Some (w, es)"
    and tw: "terminated w" and les: "length (filter isAttempt es) = 20"
    by blast
  from reconnect_gives_up [of ?t failingEngine ?cs w _ _ _ 10 "Inr ?cs"] tw
  have dis: "worldStep failingEngine (SocketOpen 10) w = None"
    "worldStep failingEngine (ReconnectFire (Inr ?cs)) w = None"
    by blast+
  have "\<exists>w' es'. worldRun failingEngine ?evs w = Some (w', es')"
    by (simp add: worldStep_def split_beta)
  then obtain w' es' where run': "worldRun failingEngine ?evs w = Some (w', es')" by blast
  from reconnect_gives_up [of ?t failingEngine ?cs w ?evs w' es'] tw run'
  have after: "terminated w' \<and> filter isAttempt es' = []" by blast
  have b: "maxReconnectAttempts (trader (startWorld ?u)) \<le> reconnectAttempts (trader (startWorld ?u))"
    by (simp add: startWorld_fields LiveTrader_def)
  from reconnect_gives_up [of ?u failingEngine ?cs] have c: "chain (startWorld ?u)" by blast
  let ?v = "(startWorld ?u)\<lparr>sockets := (sockets (startWorld ?u))[0 := SockClosed]\<rparr>"
  let ?d = "deliver ?v (onClose (trader (startWorld ?u)))"
  have "worldStep failingEngine (SocketClose 0) (startWorld ?u) = Some ?d"
    by (simp add: worldStep_def startWorld_fields live_def)
  then have st: "worldStep failingEngine (SocketClose 0) (startWorld ?u) = Some (fst ?d, snd ?d)"
    by simp
  from reconnect_gives_up [of ?u failingEngine ?cs "startWorld ?u" _ "fst ?d" "snd ?d" 0] c b st
  have d: "terminated (fst ?d) \<and> filter isAttempt (snd ?d) = []" by blast
  from reconnect_gives_up [of ?u failingEngine ?cs]
  have e: "attemptReconnect ?u =
      (?u, [ErrorLog ''Maximum reconnection attempts reached. Giving up.''])"
    by (simp add: LiveTrader_def)
  from run tw les dis run' after st d e show ?thesis by blast
qed

subsection \<open>The exit signals of a processed candle\<close>

lemma exits_append: "exits (xs @ ys) = exits xs @ exits ys"
  by (induction xs rule: exits.induct) simp_all

lemma exits_closeLong:
  "exits (snd (closeLong prev r cs t)) =
     (case prev of
        None \<Rightarrow> []
      | Some p \<Rightarrow>
          if inLongTrade p \<and> \<not> inLongTrade (res_state r) then
            [\<lparr>position = ''long'', entryPrice = longEntryPrice p,
              exitPrice = last_elem (close cs),
              profitLoss = snd (longExitOutcome (config t) p (res_signal r)
                (last_elem (high cs)) (last_elem (close cs))),
              riskedAmount = riskAmount p,
              reason = fst (longExitOutcome (config t) p (res_signal r)
                (last_elem (high cs)) (last_elem (close cs)))\<rparr>]
          else [])"
  by (simp add: closeLong_def split_beta split: option.splits)

lemma exits_closeShort:
  "exits (snd (closeShort prev r cs t)) =
     (case prev of
        None \<Rightarrow> []
      | Some p \<Rightarrow>
          if inShortTrade p \<and> \<not> inShortTrade (res_state r) then
            [\<lparr>position = ''short'', entryPrice = shortEntryPrice p,
              exitPrice = last_elem (close cs),
              profitLoss = snd (shortExitOutcome (config t) p (res_signal r)
                (last_elem (low cs)) (last_elem (close cs))),
              riskedAmount = riskAmount p,
              reason = fst (shortExitOutcome (config t) p (res_signal r)
                (last_elem (low cs)) (last_elem (close cs)))\<rparr>]
          else [])"
  by (simp add: closeShort_def split_beta split: option.splits)

lemma exits_openTrade: "exits (snd (openTrade now r cs t)) = []"
  by (simp add: openTrade_def Let_def split: option.splits)

lemma exits_updateLongStop: "exits (snd (updateLongStop prev r t)) = []"
  by (simp add: updateLongStop_def Let_def split: option.splits)

lemma exits_updateShortStop: "exits (snd (updateShortStop prev r t)) = []"
  by (simp add: updateShortStop_def Let_def split: option.splits)

lemma exits_heartbeat: "exits (snd (heartbeat now r t)) = []"
  by (simp add: heartbeat_def Let_def)

lemma config_closeLong: "config (fst (closeLong prev r cs t)) = config t"
  using closeLong_frame [of t prev r cs] by (simp add: sameConnection_def)

lemma exits_processCandle:
  assumes "jAlgo (candles t) (state t) (config t) = Inr r" "candles t = Some cs"
  shows "exits (snd (processCandle jAlgo now t)) =
     exits (snd (closeLong (state t) r cs t)) @ exits (snd (closeShort (state t) r cs t))"
proof -
  have 1: "exits (snd (closeLong (state t) r cs (t\<lparr>state := Some (res_state r)\<rparr>)))
      = exits (snd (closeLong (state t) r cs t))"
    by (simp add: exits_closeLong split: option.splits)
  have 2: "exits (snd (closeShort (state t) r cs
        (fst (closeLong (state t) r cs (t\<lparr>state := Some (res_state r)\<rparr>)))))
      = exits (snd (closeShort (state t) r cs t))"
    by (simp add: exits_closeShort config_closeLong split: option.splits)
  show ?thesis
    by (simp add: processCandle_Inr [where jAlgo = jAlgo and t = t, OF assms] Let_def
        exits_append exits_openTrade exits_updateLongStop exits_updateShortStop
        exits_heartbeat 1 2)
qed

lemma exits_processCandle_failed:
  "jAlgo (candles t) (state t) (config t) = Inl err \<Longrightarrow>
   exits (snd (processCandle jAlgo now t)) = []"
  by (simp add: processCandle_def)

lemma exits_processCandle_no_window:
  "candles t = None \<Longrightarrow> exits (snd (processCandle jAlgo now t)) = []"
  by (simp add: processCandle_def Let_def split: sum.splits)

text \<open>
  C8.  When the call of the engine throws, \<open>processCandle\<close> logs the error and does
  nothing else: every field of the trader, the engine state among them, is what it was
  before the call, and no signal is sent.  Seen from \<open>handleMessage\<close>, the closed candle has
  entered the window, and the engine state and the active trades are those from before.
\<close>

theorem engine_failure_keeps_state:
  "(jAlgo (candles t) (state t) (config t) = Inl err \<longrightarrow>
      processCandle jAlgo now t = (t, [EngineCall, ErrorLog ''Error processing candle:'']))
   \<and> (lastCandleTime t \<noteq> k_t k \<and> k_x k \<and> candles t = Some cs
       \<and> jAlgo (Some (shift_candles (push_kline k cs))) (state t) (config t) = Inl err \<longrightarrow>
      handleMessage jAlgo now (KlineEvent k) t =
        (t\<lparr>lastCandleTime := k_t k, candles := Some (shift_candles (push_kline k cs))\<rparr>,
         [EngineCall, ErrorLog ''Error processing candle:'']))"
  by (simp add: processCandle_def handleMessage_def Let_def)

theorem engine_failure_keeps_state_witness:
  "processCandle failingEngine 2000 (exampleTrader (exampleWindow 106 99 104) longState) =
     (exampleTrader (exampleWindow 106 99 104) longState,
      [EngineCall, ErrorLog ''Error processing candle:''])
   \<and> state (fst (handleMessage failingEngine 2000 (KlineEvent (exampleKline 4 True))
        (exampleTrader (exampleWindow 106 99 104) longState))) = Some longState
   \<and> snd (handleMessage failingEngine 2000 (KlineEvent (exampleKline 4 True))
        (exampleTrader (exampleWindow 106 99 104) longState)) =
      [EngineCall, ErrorLog ''Error processing candle:'']"
proof -
  let ?t = "exampleTrader (exampleWindow 106 99 104) longState"
  let ?k = "exampleKline 4 True"
  have a: "failingEngine (candles ?t) (state ?t) (config ?t) = Inl ''engine failure''"
    by (simp add: failingEngine_def)
  have b: "lastCandleTime ?t \<noteq> k_t ?k \<and> k_x ?k \<and> candles ?t = Some (exampleWindow 106 99 104)
      \<and> failingEngine (Some (shift_candles (push_kline ?k (exampleWindow 106 99 104))))
          (state ?t) (config ?t) = Inl ''engine failure''"
    by (simp add: failingEngine_def exampleTrader_def LiveTrader_def exampleKline_def)
  note inst = engine_failure_keeps_state [of failingEngine ?t "''engine failure''" 2000 ?k
      "exampleWindow 106 99 104"]
  from inst a have 1: "processCandle failingEngine 2000 ?t =
      (?t, [EngineCall, ErrorLog ''Error processing candle:''])" by blast
  from inst b have 2: "handleMessage failingEngine 2000 (KlineEvent ?k) ?t =
        (?t\<lparr>lastCandleTime := k_t ?k,
            candles := Some (shift_candles (push_kline ?k (exampleWindow 106 99 104)))\<rparr>,
         [EngineCall, ErrorLog ''Error processing candle:''])" by blast
  have 3: "state ?t = Some longState" by (simp add: exampleTrader_def)
  from 1 2 3 show ?thesis by simp
qed

subsection \<open>Reason and profit of an exit\<close>

lemma longExitOutcome_target:
  "longTargetLevel p \<le> h \<Longrightarrow>
   longExitOutcome cfg p sig (Some h) c =
     (''Target Hit'', Fin (riskAmount p * rewardMultiple cfg * leverageFactor cfg))"
  by (auto simp add: longExitOutcome_def toNumber_def)

lemma shortExitOutcome_target:
  "l \<le> shortTargetLevel p \<Longrightarrow>
   shortExitOutcome cfg p sig (Some l) c =
     (''Target Hit'', Fin (riskAmount p * rewardMultiple cfg * leverageFactor cfg))"
  by (auto simp add: shortExitOutcome_def toNumber_def js_le_def)

lemma longExitOutcome_partial:
  assumes "h < longTargetLevel p" "longEntryPrice p < c"
  shows "longExitOutcome cfg p (Some ''short'') (Some h) (Some c) =
     (''New Signal (Short)'',
      Fin ((if longTargetLevel p = longEntryPrice p then 1
            else min ((c - longEntryPrice p) / (longTargetLevel p - longEntryPrice p)) 1)
           * riskAmount p * rewardMultiple cfg * leverageFactor cfg))"
  using assms by (simp add: longExitOutcome_def toNumber_def Let_def signed_inf_def)

lemma shortExitOutcome_partial:
  assumes "shortTargetLevel p < l" "c < shortEntryPrice p"
  shows "shortExitOutcome cfg p (Some ''long'') (Some l) (Some c) =
     (''New Signal (Long)'',
      Fin ((if shortEntryPrice p = shortTargetLevel p then 1
            else min ((shortEntryPrice p - c) / (shortEntryPrice p - shortTargetLevel p)) 1)
           * riskAmount p * rewardMultiple cfg * leverageFactor cfg))"
  using assms
  by (simp add: shortExitOutcome_def toNumber_def Let_def signed_inf_def js_le_def)

text \<open>
  C10.  Every exit signal sent while a candle is processed reports as exit price the
  last close of the window, that is the close of the current candle, whatever the reason of
  the exit; its entry price is the entry price of its side in the engine state from before
  the call, and its risked amount is the risk amount of that state.
\<close>

theorem exit_reports_close:
  "e \<in> set (exits (snd (processCandle jAlgo now t))) \<Longrightarrow>
   \<exists>p cs. state t = Some p \<and> candles t = Some cs
     \<and> exitPrice e = last_elem (close cs) \<and> riskedAmount e = riskAmount p
     \<and> (position e = ''long'' \<and> entryPrice e = longEntryPrice p
        \<or> position e = ''short'' \<and> entryPrice e = shortEntryPrice p)"
proof -
  assume mem: "e \<in> set (exits (snd (processCandle jAlgo now t)))"
  show ?thesis
  proof (cases "jAlgo (candles t) (state t) (config t)")
    case (Inl err)
    with mem show ?thesis by (simp add: exits_processCandle_failed)
  next
    case (Inr r)
    show ?thesis
    proof (cases "candles t")
      case None
      with mem show ?thesis by (simp add: exits_processCandle_no_window)
    next
      case (Some cs)
      from mem have dis: "e \<in> set (exits (snd (closeLong (state t) r cs t)))
          \<or> e \<in> set (exits (snd (closeShort (state t) r cs t)))"
        by (simp add: exits_processCandle [where jAlgo = jAlgo and t = t, OF Inr Some])
      show ?thesis
      proof (cases "state t")
        case None
        with dis show ?thesis by (simp add: exits_closeLong exits_closeShort)
      next
        case p: (Some p)
        with dis Some show ?thesis
          by (auto simp add: exits_closeLong exits_closeShort split: if_splits)
      qed
    qed
  qed
qed

lemma example_target_hit:
  "exits (snd (processCandle (constEngine \<lparr>res_state = flatState, res_signal = None\<rparr>) 2000
      (exampleTrader (exampleWindow 106 99 104) longState))) =
   [\<lparr>position = ''long'', entryPrice = 100, exitPrice = Some 104, profitLoss = Fin 15,
     riskedAmount = 10, reason = ''Target Hit''\<rparr>]"
proof -
  let ?r = "\<lparr>res_state = flatState, res_signal = None\<rparr>"
  let ?t = "exampleTrader (exampleWindow 106 99 104) longState"
  have a: "constEngine ?r (candles ?t) (state ?t) (config ?t) = Inr ?r"
    by (simp add: constEngine_def)
  have b: "candles ?t = Some (exampleWindow 106 99 104)"
    by (simp add: exampleTrader_def)
  have c: "longExitOutcome exampleConfig longState None (Some 106) (Some 104)
      = (''Target Hit'', Fin 15)"
    by (simp add: longExitOutcome_target longState_def exampleConfig_def leverageFactor_def)
  show ?thesis
    unfolding exits_processCandle [where jAlgo = "constEngine ?r" and t = ?t, OF a b]
    by (simp add: exits_closeLong exits_closeShort exampleTrader_def LiveTrader_def
        exampleWindow_def last_elem_def c)
       (simp add: longState_def flatState_def)
qed

theorem exit_reports_close_witness:
  "\<lparr>position = ''long'', entryPrice = 100, exitPrice = Some 104, profitLoss = Fin 15,
     riskedAmount = 10, reason = ''Target Hit''\<rparr>
     \<in> set (exits (snd (processCandle (constEngine \<lparr>res_state = flatState, res_signal = None\<rparr>)
          2000 (exampleTrader (exampleWindow 106 99 104) longState))))
   \<and> last_elem (close (exampleWindow 106 99 104)) = Some 104
   \<and> longEntryPrice longState = 100 \<and> riskAmount longState = 10
   \<and> longTargetLevel longState = 105 \<and> longStopReference longState = 95"
proof -
  let ?e = "\<lparr>position = ''long'', entryPrice = 100, exitPrice = Some 104, profitLoss = Fin 15,
     riskedAmount = 10, reason = ''Target Hit''\<rparr>"
  let ?r = "\<lparr>res_state = flatState, res_signal = None\<rparr>"
  let ?t = "exampleTrader (exampleWindow 106 99 104) longState"
  have mem: "?e \<in> set (exits (snd (processCandle (constEngine ?r) 2000 ?t)))"
    by (simp add: example_target_hit)
  from exit_reports_close [OF mem]
  obtain p cs where "state ?t = Some p" "candles ?t = Some cs"
    "exitPrice ?e = last_elem (close cs)" "riskedAmount ?e = riskAmount p"
    "position ?e = ''long'' \<and> entryPrice ?e = longEntryPrice p
     \<or> position ?e = ''short'' \<and> entryPrice ?e = shortEntryPrice p"
    by blast
  then have "last_elem (close (exampleWindow 106 99 104)) = Some 104
      \<and> longEntryPrice longState = 100 \<and> riskAmount longState = 10"
    by (simp add: exampleTrader_def)
  with mem show ?thesis by (simp add: longState_def)
qed

lemma long_exits_processCandle:
  assumes "jAlgo (candles t) (state t) (config t) = Inr r" "candles t = Some cs"
    "state t = Some p" "inLongTrade p" "\<not> inLongTrade (res_state r)"
  shows "filter (\<lambda>e. position e = ''long'') (exits (snd (processCandle jAlgo now t))) =
     [\<lparr>position = ''long'', entryPrice = longEntryPrice p, exitPrice = last_elem (close cs),
       profitLoss = snd (longExitOutcome (config t) p (res_signal r)
          (last_elem (high cs)) (last_elem (close cs))),
       riskedAmount = riskAmount p,
       reason = fst (longExitOutcome (config t) p (res_signal r)
          (last_elem (high cs)) (last_elem (close cs)))\<rparr>]"
  using assms(3-5)
  by (simp add: exits_processCandle [where jAlgo = jAlgo and t = t, OF assms(1,2)]
      exits_closeLong exits_closeShort)

lemma short_exits_processCandle:
  assumes "jAlgo (candles t) (state t) (config t) = Inr r" "candles t = Some cs"
    "state t = Some p" "inShortTrade p" "\<not> inShortTrade (res_state r)"
  shows "filter (\<lambda>e. position e = ''short'') (exits (snd (processCandle jAlgo now t))) =
     [\<lparr>position = ''short'', entryPrice = shortEntryPrice p, exitPrice = last_elem (close cs),
       profitLoss = snd (shortExitOutcome (config t) p (res_signal r)
          (last_elem (low cs)) (last_elem (close cs))),
       riskedAmount = riskAmount p,
       reason = fst (shortExitOutcome (config t) p (res_signal r)
          (last_elem (low cs)) (last_elem (close cs)))\<rparr>]"
  using assms(3-5)
  by (simp add: exits_processCandle [where jAlgo = jAlgo and t = t, OF assms(1,2)]
      exits_closeLong exits_closeShort)

text \<open>
  C6.  When a processed candle takes a side from in trade (state before the call) to
  not in trade (state after it) and the last high of the window is at or above the prior
  long target (long side), or the last low is at or below the prior short target (short
  side), the one exit signal sent for that side has the reason \<open>Target Hit\<close> and the
  profit \<open>riskAmount * rewardMultiple * (useLeverage ? leverageAmount : 1)\<close>.  With
  target 105, entry 100, risk 10, reward multiple 1.5, no leverage and a high of 106 the
  profit is 15.
\<close>

theorem target_hit_exit:
  assumes "jAlgo (candles t) (state t) (config t) = Inr r"
    and "candles t = Some cs" and "state t = Some p"
  shows "(inLongTrade p \<and> \<not> inLongTrade (res_state r)
          \<and> last_elem (high cs) = Some h \<and> longTargetLevel p \<le> h \<longrightarrow>
        filter (\<lambda>e. position e = ''long'') (exits (snd (processCandle jAlgo now t))) =
          [\<lparr>position = ''long'', entryPrice = longEntryPrice p,
            exitPrice = last_elem (close cs),
            profitLoss = Fin (riskAmount p * rewardMultiple (config t)
              * (if useLeverage (config t) then leverageAmount (config t) else 1)),
            riskedAmount = riskAmount p, reason = ''Target Hit''\<rparr>])
      \<and> (inShortTrade p \<and> \<not> inShortTrade (res_state r)
          \<and> last_elem (low cs) = Some l \<and> l \<le> shortTargetLevel p \<longrightarrow>
        filter (\<lambda>e. position e = ''short'') (exits (snd (processCandle jAlgo now t))) =
          [\<lparr>position = ''short'', entryPrice = shortEntryPrice p,
            exitPrice = last_elem (close cs),
            profitLoss = Fin (riskAmount p * rewardMultiple (config t)
              * (if useLeverage (config t) then leverageAmount (config t) else 1)),
            riskedAmount = riskAmount p, reason = ''Target Hit''\<rparr>])"
proof (intro conjI impI)
  assume h: "inLongTrade p \<and> \<not> inLongTrade (res_state r)
          \<and> last_elem (high cs) = Some h \<and> longTargetLevel p \<le> h"
  then have "longExitOutcome (config t) p (res_signal r) (last_elem (high cs))
      (last_elem (close cs)) =
     (''Target Hit'', Fin (riskAmount p * rewardMultiple (config t) * leverageFactor (config t)))"
    by (simp add: longExitOutcome_target)
  with h long_exits_processCandle [where jAlgo = jAlgo and t = t and now = now, OF assms]
  show "filter (\<lambda>e. position e = ''long'') (exits (snd (processCandle jAlgo now t))) =
          [\<lparr>position = ''long'', entryPrice = longEntryPrice p,
            exitPrice = last_elem (close cs),
            profitLoss = Fin (riskAmount p * rewardMultiple (config t)
              * (if useLeverage (config t) then leverageAmount (config t) else 1)),
            riskedAmount = riskAmount p, reason = ''Target Hit''\<rparr>]"
    by (simp add: leverageFactor_def)
next
  assume h: "inShortTrade p \<and> \<not> inShortTrade (res_state r)
          \<and> last_elem (low cs) = Some l \<and> l \<le> shortTargetLevel p"
  then have "shortExitOutcome (config t) p (res_signal r) (last_elem (low cs))
      (last_elem (close cs)) =
     (''Target Hit'', Fin (riskAmount p * rewardMultiple (config t) * leverageFactor (config t)))"
    by (simp add: shortExitOutcome_target)
  with h short_exits_processCandle [where jAlgo = jAlgo and t = t and now = now, OF assms]
  show "filter (\<lambda>e. position e = ''short'') (exits (snd (processCandle jAlgo now t))) =
          [\<lparr>position = ''short'', entryPrice = shortEntryPrice p,
            exitPrice = last_elem (close cs),
            profitLoss = Fin (riskAmount p * rewardMultiple (config t)
              * (if useLeverage (config t) then leverageAmount (config t) else 1)),
            riskedAmount = riskAmount p, reason = ''Target Hit''\<rparr>]"
    by (simp add: leverageFactor_def)
qed

theorem target_hit_exit_witness:
  "filter (\<lambda>e. position e = ''long'')
     (exits (snd (processCandle (constEngine \<lparr>res_state = flatState, res_signal = None\<rparr>) 2000
        (exampleTrader (exampleWindow 106 99 104) longState)))) =
     [\<lparr>position = ''long'', entryPrice = 100, exitPrice = Some 104, profitLoss = Fin 15,
       riskedAmount = 10, reason = ''Target Hit''\<rparr>]
   \<and> filter (\<lambda>e. position e = ''short'')
     (exits (snd (processCandle (constEngine \<lparr>res_state = flatState, res_signal = None\<rparr>) 2000
        (exampleTrader (exampleWindow 101 94 96) shortState)))) =
     [\<lparr>position = ''short'', entryPrice = 100, exitPrice = Some 96, profitLoss = Fin 15,
       riskedAmount = 10, reason = ''Target Hit''\<rparr>]"
proof -
  let ?r = "\<lparr>res_state = flatState, res_signal = None\<rparr>"
  let ?t = "exampleTrader (exampleWindow 106 99 104) longState"
  let ?u = "exampleTrader (exampleWindow 101 94 96) shortState"
  have t1: "constEngine ?r (candles ?t) (state ?t) (config ?t) = Inr ?r"
    and u1: "constEngine ?r (candles ?u) (state ?u) (config ?u) = Inr ?r"
    by (simp_all add: constEngine_def)
  have t2: "candles ?t = Some (exampleWindow 106 99 104)"
    and t3: "state ?t = Some longState"
    and u2: "candles ?u = Some (exampleWindow 101 94 96)"
    and u3: "state ?u = Some shortState"
    by (simp_all add: exampleTrader_def)
  have t4: "inLongTrade longState \<and> \<not> inLongTrade (res_state ?r)
      \<and> last_elem (high (exampleWindow 106 99 104)) = Some 106
      \<and> longTargetLevel longState \<le> 106"
    by (simp add: longState_def flatState_def exampleWindow_def last_elem_def)
  have u4: "inShortTrade shortState \<and> \<not> inShortTrade (res_state ?r)
      \<and> last_elem (low (exampleWindow 101 94 96)) = Some 94
      \<and> 94 \<le> shortTargetLevel shortState"
    by (simp add: shortState_def flatState_def exampleWindow_def last_elem_def)
  have v: "config ?t = exampleConfig" "config ?u = exampleConfig"
    "last_elem (close (exampleWindow 106 99 104)) = Some 104"
    "last_elem (close (exampleWindow 101 94 96)) = Some 96"
    by (simp_all add: exampleTrader_def LiveTrader_def exampleWindow_def last_elem_def)
  from target_hit_exit [where jAlgo = "constEngine ?r" and t = ?t and now = 2000
      and h = 106, OF t1 t2 t3] t4
  have 1: "filter (\<lambda>e. position e = ''long'')
     (exits (snd (processCandle (constEngine ?r) 2000 ?t))) =
     [\<lparr>position = ''long'', entryPrice = 100, exitPrice = Some 104, profitLoss = Fin 15,
       riskedAmount = 10, reason = ''Target Hit''\<rparr>]"
    by (simp add: v) (simp add: longState_def exampleConfig_def)
  from target_hit_exit [where jAlgo = "constEngine ?r" and t = ?u and now = 2000
      and l = 94, OF u1 u2 u3] u4
  have 2: "filter (\<lambda>e. position e = ''short'')
     (exits (snd (processCandle (constEngine ?r) 2000 ?u))) =
     [\<lparr>position = ''short'', entryPrice = 100, exitPrice = Some 96, profitLoss = Fin 15,
       riskedAmount = 10, reason = ''Target Hit''\<rparr>]"
    by (simp add: v) (simp add: shortState_def exampleConfig_def)
  from 1 2 show ?thesis by simp
qed

text \<open>
  C7 as stated gives the reason as \<open>Opposing Signal\<close>.  On its own example (entry 100,
  target 105, risk 10, reward multiple 1.5, no leverage, high 104, a new short signal and
  close 103) the profit sent is 9, and the reason sent is \<open>New Signal (Short)\<close>.
\<close>

theorem opposing_signal_reason_counterexample:
  "map reason (exits (snd (processCandle
      (constEngine \<lparr>res_state = shortState, res_signal = Some ''short''\<rparr>) 2000
      (exampleTrader (exampleWindow 104 99 103) longState)))) \<noteq> [''Opposing Signal'']
   \<and> exits (snd (processCandle
      (constEngine \<lparr>res_state = shortState, res_signal = Some ''short''\<rparr>) 2000
      (exampleTrader (exampleWindow 104 99 103) longState))) =
     [\<lparr>position = ''long'', entryPrice = 100, exitPrice = Some 103, profitLoss = Fin 9,
       riskedAmount = 10, reason = ''New Signal (Short)''\<rparr>]"
proof -
  let ?r = "\<lparr>res_state = shortState, res_signal = Some ''short''\<rparr>"
  let ?t = "exampleTrader (exampleWindow 104 99 103) longState"
  have a: "constEngine ?r (candles ?t) (state ?t) (config ?t) = Inr ?r"
    by (simp add: constEngine_def)
  have b: "candles ?t = Some (exampleWindow 104 99 103)"
    by (simp add: exampleTrader_def)
  have c: "longExitOutcome exampleConfig longState (Some ''short'') (Some 104) (Some 103)
      = (''New Signal (Short)'', Fin 9)"
    by (simp add: longExitOutcome_partial longState_def exampleConfig_def leverageFactor_def)
  have "exits (snd (processCandle (constEngine ?r) 2000 ?t)) =
     [\<lparr>position = ''long'', entryPrice = 100, exitPrice = Some 103, profitLoss = Fin 9,
       riskedAmount = 10, reason = ''New Signal (Short)''\<rparr>]"
    unfolding exits_processCandle [where jAlgo = "constEngine ?r" and t = ?t, OF a b]
    by (simp add: exits_closeLong exits_closeShort exampleTrader_def LiveTrader_def
        exampleWindow_def last_elem_def c)
       (simp add: longState_def shortState_def)
  then show ?thesis by simp
qed

lemma longExitOutcome_reason:
  assumes "\<forall>h. hi = Some h \<longrightarrow> h < longTargetLevel p"
  shows "fst (longExitOutcome cfg p (Some ''short'') hi cl) = ''New Signal (Short)''"
  using assms by (cases hi) (simp_all add: longExitOutcome_def toNumber_def Let_def)

lemma shortExitOutcome_reason:
  assumes "\<forall>l. lo = Some l \<longrightarrow> shortTargetLevel p < l"
  shows "fst (shortExitOutcome cfg p (Some ''long'') lo cl) = ''New Signal (Long)''"
  using assms
  by (cases lo) (simp_all add: shortExitOutcome_def toNumber_def Let_def js_le_def)

lemma longExitOutcome_favourable:
  assumes "\<forall>h. hi = Some h \<longrightarrow> h < longTargetLevel p" "longEntryPrice p < c"
  shows "snd (longExitOutcome cfg p (Some ''short'') hi (Some c)) =
      Fin ((if longTargetLevel p = longEntryPrice p then 1
            else min ((c - longEntryPrice p) / (longTargetLevel p - longEntryPrice p)) 1)
           * riskAmount p * rewardMultiple cfg * leverageFactor cfg)"
  using assms
  by (cases hi) (simp_all add: longExitOutcome_def toNumber_def Let_def signed_inf_def)

lemma shortExitOutcome_favourable:
  assumes "\<forall>l. lo = Some l \<longrightarrow> shortTargetLevel p < l" "c < shortEntryPrice p"
  shows "snd (shortExitOutcome cfg p (Some ''long'') lo (Some c)) =
      Fin ((if shortEntryPrice p = shortTargetLevel p then 1
            else min ((shortEntryPrice p - c) / (shortEntryPrice p - shortTargetLevel p)) 1)
           * riskAmount p * rewardMultiple cfg * leverageFactor cfg)"
  using assms
  by (cases lo)
     (simp_all add: shortExitOutcome_def toNumber_def Let_def signed_inf_def js_le_def)

text \<open>
  C7, amended.  When a processed candle takes a side out of its trade, the target of that
  side was not hit (the last high is not at or above the prior long target, or the last
  low not at or below the prior short target) and the new signal is on the opposite side,
  the one exit signal sent for that side has the reason \<open>New Signal (Short)\<close> for a long
  trade and \<open>New Signal (Long)\<close> for a short trade, whichever way the close has moved.
  When the close has moved in favour of the trade (above the long entry, below the short
  entry) the profit is \<open>min (favourable distance / target distance) 1 * riskAmount *
  rewardMultiple * leverage factor\<close>, the quotient being infinite and the fraction 1 when
  the target distance is zero.  On the example above the profit is 9.
\<close>

theorem opposing_signal_exit:
  assumes "jAlgo (candles t) (state t) (config t) = Inr r"
    and "candles t = Some cs" and "state t = Some p"
  shows "(inLongTrade p \<and> \<not> inLongTrade (res_state r)
          \<and> (\<forall>h. last_elem (high cs) = Some h \<longrightarrow> h < longTargetLevel p)
          \<and> res_signal r = Some ''short'' \<longrightarrow>
        (\<exists>pl. filter (\<lambda>e. position e = ''long'') (exits (snd (processCandle jAlgo now t))) =
            [\<lparr>position = ''long'', entryPrice = longEntryPrice p,
              exitPrice = last_elem (close cs), profitLoss = pl,
              riskedAmount = riskAmount p, reason = ''New Signal (Short)''\<rparr>]
          \<and> (\<forall>c. last_elem (close cs) = Some c \<and> longEntryPrice p < c \<longrightarrow>
                pl = Fin
                  ((if longTargetLevel p = longEntryPrice p then 1
                    else min ((c - longEntryPrice p)
                              / (longTargetLevel p - longEntryPrice p)) 1)
                   * riskAmount p * rewardMultiple (config t)
                   * (if useLeverage (config t) then leverageAmount (config t) else 1)))))
      \<and> (inShortTrade p \<and> \<not> inShortTrade (res_state r)
          \<and> (\<forall>l. last_elem (low cs) = Some l \<longrightarrow> shortTargetLevel p < l)
          \<and> res_signal r = Some ''long'' \<longrightarrow>
        (\<exists>pl. filter (\<lambda>e. position e = ''short'') (exits (snd (processCandle jAlgo now t))) =
            [\<lparr>position = ''short'', entryPrice = shortEntryPrice p,
              exitPrice = last_elem (close cs), profitLoss = pl,
              riskedAmount = riskAmount p, reason = ''New Signal (Long)''\<rparr>]
          \<and> (\<forall>c. last_elem (close cs) = Some c \<and> c < shortEntryPrice p \<longrightarrow>
                pl = Fin
                  ((if shortEntryPrice p = shortTargetLevel p then 1
                    else min ((shortEntryPrice p - c)
                              / (shortEntryPrice p - shortTargetLevel p)) 1)
                   * riskAmount p * rewardMultiple (config t)
                   * (if useLeverage (config t) then leverageAmount (config t) else 1)))))"
proof (intro conjI impI)
  assume h: "inLongTrade p \<and> \<not> inLongTrade (res_state r)
          \<and> (\<forall>h. last_elem (high cs) = Some h \<longrightarrow> h < longTargetLevel p)
          \<and> res_signal r = Some ''short''"
  let ?out = "longExitOutcome (config t) p (Some ''short'') (last_elem (high cs))
      (last_elem (close cs))"
  from h have reason: "fst ?out = ''New Signal (Short)''"
    by (simp add: longExitOutcome_reason)
  from h long_exits_processCandle [where jAlgo = jAlgo and t = t and now = now, OF assms]
  have ex: "filter (\<lambda>e. position e = ''long'') (exits (snd (processCandle jAlgo now t))) =
            [\<lparr>position = ''long'', entryPrice = longEntryPrice p,
              exitPrice = last_elem (close cs), profitLoss = snd ?out,
              riskedAmount = riskAmount p, reason = ''New Signal (Short)''\<rparr>]"
    by (simp add: reason)
  have pl: "snd ?out = Fin
                  ((if longTargetLevel p = longEntryPrice p then 1
                    else min ((c - longEntryPrice p)
                              / (longTargetLevel p - longEntryPrice p)) 1)
                   * riskAmount p * rewardMultiple (config t)
                   * (if useLeverage (config t) then leverageAmount (config t) else 1))"
    if "last_elem (close cs) = Some c \<and> longEntryPrice p < c" for c
    using that h by (simp add: longExitOutcome_favourable leverageFactor_def)
  from ex pl
  show "\<exists>pl. filter (\<lambda>e. position e = ''long'') (exits (snd (processCandle jAlgo now t))) =
            [\<lparr>position = ''long'', entryPrice = longEntryPrice p,
              exitPrice = last_elem (close cs), profitLoss = pl,
              riskedAmount = riskAmount p, reason = ''New Signal (Short)''\<rparr>]
          \<and> (\<forall>c. last_elem (close cs) = Some c \<and> longEntryPrice p < c \<longrightarrow>
                pl = Fin
                  ((if longTargetLevel p = longEntryPrice p then 1
                    else min ((c - longEntryPrice p)
                              / (longTargetLevel p - longEntryPrice p)) 1)
                   * riskAmount p * rewardMultiple (config t)
                   * (if useLeverage (config t) then leverageAmount (config t) else 1)))"
    by blast
next
  assume h: "inShortTrade p \<and> \<not> inShortTrade (res_state r)
          \<and> (\<forall>l. last_elem (low cs) = Some l \<longrightarrow> shortTargetLevel p < l)
          \<and> res_signal r = Some ''long''"
  let ?out = "shortExitOutcome (config t) p (Some ''long'') (last_elem (low cs))
      (last_elem (close cs))"
  from h have reason: "fst ?out = ''New Signal (Long)''"
    by (simp add: shortExitOutcome_reason)
  from h short_exits_processCandle [where jAlgo = jAlgo and t = t and now = now, OF assms]
  have ex: "filter (\<lambda>e. position e = ''short'') (exits (snd (processCandle jAlgo now t))) =
            [\<lparr>position = ''short'', entryPrice = shortEntryPrice p,
              exitPrice = last_elem (close cs), profitLoss = snd ?out,
              riskedAmount = riskAmount p, reason = ''New Signal (Long)''\<rparr>]"
    by (simp add: reason)
  have pl: "snd ?out = Fin
                  ((if shortEntryPrice p = shortTargetLevel p then 1
                    else min ((shortEntryPrice p - c)
                              / (shortEntryPrice p - shortTargetLevel p)) 1)
                   * riskAmount p * rewardMultiple (config t)
                   * (if useLeverage (config t) then leverageAmount (config t) else 1))"
    if "last_elem (close cs) = Some c \<and> c < shortEntryPrice p" for c
    using that h by (simp add: shortExitOutcome_favourable leverageFactor_def)
  from ex pl
  show "\<exists>pl. filter (\<lambda>e. position e = ''short'') (exits (snd (processCandle jAlgo now t))) =
            [\<lparr>position = ''short'', entryPrice = shortEntryPrice p,
              exitPrice = last_elem (close cs), profitLoss = pl,
              riskedAmount = riskAmount p, reason = ''New Signal (Long)''\<rparr>]
          \<and> (\<forall>c. last_elem (close cs) = Some c \<and> c < shortEntryPrice p \<longrightarrow>
                pl = Fin
                  ((if shortEntryPrice p = shortTargetLevel p then 1
                    else min ((shortEntryPrice p - c)
                              / (shortEntryPrice p - shortTargetLevel p)) 1)
                   * riskAmount p * rewardMultiple (config t)
                   * (if useLeverage (config t) then leverageAmount (config t) else 1)))"
    by blast
qed

theorem opposing_signal_exit_witness:
  "filter (\<lambda>e. position e = ''long'')
     (exits (snd (processCandle
        (constEngine \<lparr>res_state = shortState, res_signal = Some ''short''\<rparr>) 2000
        (exampleTrader (exampleWindow 104 99 103) longState)))) =
     [\<lparr>position = ''long'', entryPrice = 100, exitPrice = Some 103, profitLoss = Fin 9,
       riskedAmount = 10, reason = ''New Signal (Short)''\<rparr>]
   \<and> filter (\<lambda>e. position e = ''short'')
     (exits (snd (processCandle
        (constEngine \<lparr>res_state = longState, res_signal = Some ''long''\<rparr>) 2000
        (exampleTrader (exampleWindow 101 96 97) shortState)))) =
     [\<lparr>position = ''short'', entryPrice = 100, exitPrice = Some 97, profitLoss = Fin 9,
       riskedAmount = 10, reason = ''New Signal (Long)''\<rparr>]
   \<and> map reason (filter (\<lambda>e. position e = ''long'')
     (exits (snd (processCandle
        (constEngine \<lparr>res_state = shortState, res_signal = Some ''short''\<rparr>) 2000
        (exampleTrader (exampleWindow 104 97 98) longState))))) = [''New Signal (Short)'']"
proof -
  let ?r = "\<lparr>res_state = shortState, res_signal = Some ''short''\<rparr>"
  let ?q = "\<lparr>res_state = longState, res_signal = Some ''long''\<rparr>"
  let ?t = "exampleTrader (exampleWindow 104 99 103) longState"
  let ?u = "exampleTrader (exampleWindow 101 96 97) shortState"
  let ?v = "exampleTrader (exampleWindow 104 97 98) longState"
  have t1: "constEngine ?r (candles ?t) (state ?t) (config ?t) = Inr ?r"
    and u1: "constEngine ?q (candles ?u) (state ?u) (config ?u) = Inr ?q"
    and v1: "constEngine ?r (candles ?v) (state ?v) (config ?v) = Inr ?r"
    by (simp_all add: constEngine_def)
  have t2: "candles ?t = Some (exampleWindow 104 99 103)"
    and t3: "state ?t = Some longState"
    and u2: "candles ?u = Some (exampleWindow 101 96 97)"
    and u3: "state ?u = Some shortState"
    and v2: "candles ?v = Some (exampleWindow 104 97 98)"
    and v3: "state ?v = Some longState"
    by (simp_all add: exampleTrader_def)
  have t4: "last_elem (close (exampleWindow 104 99 103)) = Some 103 \<and> longEntryPrice longState < 103"
    and u4: "last_elem (close (exampleWindow 101 96 97)) = Some 97 \<and> 97 < shortEntryPrice shortState"
    by (simp_all add: exampleWindow_def last_elem_def longState_def shortState_def)
  have t5: "inLongTrade longState \<and> \<not> inLongTrade (res_state ?r)
      \<and> (\<forall>h. last_elem (high (exampleWindow 104 99 103)) = Some h \<longrightarrow> h < longTargetLevel longState)
      \<and> res_signal ?r = Some ''short''"
    and v5: "inLongTrade longState \<and> \<not> inLongTrade (res_state ?r)
      \<and> (\<forall>h. last_elem (high (exampleWindow 104 97 98)) = Some h \<longrightarrow> h < longTargetLevel longState)
      \<and> res_signal ?r = Some ''short''"
    by (simp_all add: longState_def shortState_def exampleWindow_def last_elem_def)
  have u5: "inShortTrade shortState \<and> \<not> inShortTrade (res_state ?q)
      \<and> (\<forall>l. last_elem (low (exampleWindow 101 96 97)) = Some l \<longrightarrow> shortTargetLevel shortState < l)
      \<and> res_signal ?q = Some ''long''"
    by (simp add: longState_def shortState_def exampleWindow_def last_elem_def)
  have cfg: "config ?t = exampleConfig" "config ?u = exampleConfig"
    by (simp_all add: exampleTrader_def LiveTrader_def)
  from opposing_signal_exit [where jAlgo = "constEngine ?r" and t = ?t and now = 2000,
      OF t1 t2 t3] t5
  obtain pl where a: "filter (\<lambda>e. position e = ''long'')
        (exits (snd (processCandle (constEngine ?r) 2000 ?t))) =
      [\<lparr>position = ''long'', entryPrice = longEntryPrice longState,
        exitPrice = last_elem (close (exampleWindow 104 99 103)), profitLoss = pl,
        riskedAmount = riskAmount longState, reason = ''New Signal (Short)''\<rparr>]"
    and b: "\<forall>c. last_elem (close (exampleWindow 104 99 103)) = Some c \<and> longEntryPrice longState < c \<longrightarrow>
        pl = Fin ((if longTargetLevel longState = longEntryPrice longState then 1
                   else min ((c - longEntryPrice longState)
                             / (longTargetLevel longState - longEntryPrice longState)) 1)
                  * riskAmount longState * rewardMultiple (config ?t)
                  * (if useLeverage (config ?t) then leverageAmount (config ?t) else 1))"
    by blast
  from b t4 have "pl = Fin ((if longTargetLevel longState = longEntryPrice longState then 1
                   else min ((103 - longEntryPrice longState)
                             / (longTargetLevel longState - longEntryPrice longState)) 1)
                  * riskAmount longState * rewardMultiple (config ?t)
                  * (if useLeverage (config ?t) then leverageAmount (config ?t) else 1))"
    by blast
  then have "pl = Fin 9" unfolding cfg by (simp add: longState_def exampleConfig_def)
  with a t4 have 1: "filter (\<lambda>e. position e = ''long'')
        (exits (snd (processCandle (constEngine ?r) 2000 ?t))) =
     [\<lparr>position = ''long'', entryPrice = 100, exitPrice = Some 103, profitLoss = Fin 9,
       riskedAmount = 10, reason = ''New Signal (Short)''\<rparr>]"
    by (simp add: longState_def)
  from opposing_signal_exit [where jAlgo = "constEngine ?q" and t = ?u and now = 2000,
      OF u1 u2 u3] u5
  obtain ql where c: "filter (\<lambda>e. position e = ''short'')
        (exits (snd (processCandle (constEngine ?q) 2000 ?u))) =
      [\<lparr>position = ''short'', entryPrice = shortEntryPrice shortState,
        exitPrice = last_elem (close (exampleWindow 101 96 97)), profitLoss = ql,
        riskedAmount = riskAmount shortState, reason = ''New Signal (Long)''\<rparr>]"
    and d: "\<forall>c. last_elem (close (exampleWindow 101 96 97)) = Some c \<and> c < shortEntryPrice shortState \<longrightarrow>
        ql = Fin ((if shortEntryPrice shortState = shortTargetLevel shortState then 1
                   else min ((shortEntryPrice shortState - c)
                             / (shortEntryPrice shortState - shortTargetLevel shortState)) 1)
                  * riskAmount shortState * rewardMultiple (config ?u)
                  * (if useLeverage (config ?u) then leverageAmount (config ?u) else 1))"
    by blast
  from d u4 have "ql = Fin ((if shortEntryPrice shortState = shortTargetLevel shortState then 1
                   else min ((shortEntryPrice shortState - 97)
                             / (shortEntryPrice shortState - shortTargetLevel shortState)) 1)
                  * riskAmount shortState * rewardMultiple (config ?u)
                  * (if useLeverage (config ?u) then leverageAmount (config ?u) else 1))"
    by blast
  then have "ql = Fin 9" unfolding cfg by (simp add: shortState_def exampleConfig_def)
  with c u4 have 2: "filter (\<lambda>e. position e = ''short'')
        (exits (snd (processCandle (constEngine ?q) 2000 ?u))) =
     [\<lparr>position = ''short'', entryPrice = 100, exitPrice = Some 97, profitLoss = Fin 9,
       riskedAmount = 10, reason = ''New Signal (Long)''\<rparr>]"
    by (simp add: shortState_def)
  from opposing_signal_exit [where jAlgo = "constEngine ?r" and t = ?v and now = 2000,
      OF v1 v2 v3] v5
  obtain rl where "filter (\<lambda>e. position e = ''long'')
        (exits (snd (processCandle (constEngine ?r) 2000 ?v))) =
      [\<lparr>position = ''long'', entryPrice = longEntryPrice longState,
        exitPrice = last_elem (close (exampleWindow 104 97 98)), profitLoss = rl,
        riskedAmount = riskAmount longState, reason = ''New Signal (Short)''\<rparr>]"
    by blast
  then have 3: "map reason (filter (\<lambda>e. position e = ''long'')
        (exits (snd (processCandle (constEngine ?r) 2000 ?v)))) = [''New Signal (Short)'']"
    by simp
  from 1 2 3 show ?thesis by simp
qed

subsection \<open>Stop updates\<close>

lemma updates_closeLong: "filter (isUpdate side) (snd (closeLong prev r cs t)) = []"
  by (simp add: closeLong_def split_beta split: option.splits)

lemma updates_closeShort: "filter (isUpdate side) (snd (closeShort prev r cs t)) = []"
  by (simp add: closeShort_def split_beta split: option.splits)

lemma updates_openTrade: "filter (isUpdate side) (snd (openTrade now r cs t)) = []"
  by (simp add: openTrade_def Let_def split: option.splits)

lemma updates_heartbeat: "filter (isUpdate side) (snd (heartbeat now r t)) = []"
  by (simp add: heartbeat_def Let_def)

lemma updates_updateLongStop:
  "activeLongTrade t = None \<or> side \<noteq> ''long'' \<Longrightarrow>
   filter (isUpdate side) (snd (updateLongStop prev r t)) = []"
  by (auto simp add: updateLongStop_def Let_def split: option.splits)

lemma updates_updateShortStop:
  "activeShortTrade t = None \<or> side \<noteq> ''short'' \<Longrightarrow>
   filter (isUpdate side) (snd (updateShortStop prev r t)) = []"
  by (auto simp add: updateShortStop_def Let_def split: option.splits)

lemma long_closeLong:
  "activeLongTrade t = None \<Longrightarrow> activeLongTrade (fst (closeLong prev r cs t)) = None"
  by (simp add: closeLong_def split_beta split: option.splits)

lemma short_closeLong:
  "activeShortTrade (fst (closeLong prev r cs t)) = activeShortTrade t"
  by (simp add: closeLong_def split_beta split: option.splits)

lemma long_closeShort:
  "activeLongTrade (fst (closeShort prev r cs t)) = activeLongTrade t"
  by (simp add: closeShort_def split_beta split: option.splits)

lemma short_closeShort:
  "activeShortTrade t = None \<Longrightarrow> activeShortTrade (fst (closeShort prev r cs t)) = None"
  by (simp add: closeShort_def split_beta split: option.splits)

lemma long_openTrade:
  "res_signal r \<noteq> Some ''long'' \<Longrightarrow>
   activeLongTrade (fst (openTrade now r cs t)) = activeLongTrade t"
  by (simp add: openTrade_def Let_def split: option.splits)

lemma short_openTrade:
  "res_signal r \<noteq> Some ''short'' \<Longrightarrow>
   activeShortTrade (fst (openTrade now r cs t)) = activeShortTrade t"
  by (simp add: openTrade_def Let_def split: option.splits)

lemma short_updateLongStop:
  "activeShortTrade (fst (updateLongStop prev r t)) = activeShortTrade t"
  by (simp add: updateLongStop_def Let_def split: option.splits)

lemma long_updates_processCandle:
  assumes "activeLongTrade t = None"
    and "\<forall>r. jAlgo (candles t) (state t) (config t) = Inr r \<longrightarrow> res_signal r \<noteq> Some ''long''"
  shows "filter (isUpdate ''long'') (snd (processCandle jAlgo now t)) = []"
proof (cases "jAlgo (candles t) (state t) (config t)")
  case (Inl err)
  then show ?thesis by (simp add: processCandle_def)
next
  case (Inr r)
  with assms(2) have sig: "res_signal r \<noteq> Some ''long''" by simp
  show ?thesis
  proof (cases "candles t")
    case None
    with Inr show ?thesis by (simp add: processCandle_def)
  next
    case (Some cs)
    define t1 where "t1 = t\<lparr>state := Some (res_state r)\<rparr>"
    define t2 where "t2 = fst (closeLong (state t) r cs t1)"
    define t3 where "t3 = fst (closeShort (state t) r cs t2)"
    define t4 where "t4 = fst (openTrade now r cs t3)"
    define t5 where "t5 = fst (updateLongStop (state t) r t4)"
    from assms(1) have "activeLongTrade t1 = None" by (simp add: t1_def)
    then have "activeLongTrade t2 = None" unfolding t2_def by (rule long_closeLong)
    then have "activeLongTrade t3 = None" by (simp add: t3_def long_closeShort)
    with sig have "activeLongTrade t4 = None" by (simp add: t4_def long_openTrade)
    then have "filter (isUpdate ''long'') (snd (updateLongStop (state t) r t4)) = []"
      by (simp add: updates_updateLongStop)
    moreover have "filter (isUpdate ''long'') (snd (updateShortStop (state t) r t5)) = []"
      by (simp add: updates_updateShortStop)
    ultimately show ?thesis
      by (simp add: processCandle_Inr [where jAlgo = jAlgo and t = t, OF Inr Some] Let_def
          updates_closeLong updates_closeShort updates_openTrade updates_heartbeat
          t1_def t2_def t3_def t4_def t5_def)
  qed
qed

lemma short_updates_processCandle:
  assumes "activeShortTrade t = None"
    and "\<forall>r. jAlgo (candles t) (state t) (config t) = Inr r \<longrightarrow> res_signal r \<noteq> Some ''short''"
  shows "filter (isUpdate ''short'') (snd (processCandle jAlgo now t)) = []"
proof (cases "jAlgo (candles t) (state t) (config t)")
  case (Inl err)
  then show ?thesis by (simp add: processCandle_def)
next
  case (Inr r)
  with assms(2) have sig: "res_signal r \<noteq> Some ''short''" by simp
  show ?thesis
  proof (cases "candles t")
    case None
    with Inr show ?thesis by (simp add: processCandle_def)
  next
    case (Some cs)
    define t1 where "t1 = t\<lparr>state := Some (res_state r)\<rparr>"
    define t2 where "t2 = fst (closeLong (state t) r cs t1)"
    define t3 where "t3 = fst (closeShort (state t) r cs t2)"
    define t4 where "t4 = fst (openTrade now r cs t3)"
    define t5 where "t5 = fst (updateLongStop (state t) r t4)"
    from assms(1) have "activeShortTrade t1 = None" by (simp add: t1_def)
    then have "activeShortTrade t2 = None" by (simp add: t2_def short_closeLong)
    then have "activeShortTrade t3 = None" unfolding t3_def by (rule short_closeShort)
    with sig have "activeShortTrade t4 = None" by (simp add: t4_def short_openTrade)
    then have "activeShortTrade t5 = None" by (simp add: t5_def short_updateLongStop)
    then have "filter (isUpdate ''short'') (snd (updateShortStop (state t) r t5)) = []"
      by (simp add: updates_updateShortStop)
    moreover have "filter (isUpdate ''short'') (snd (updateLongStop (state t) r t4)) = []"
      by (simp add: updates_updateLongStop)
    ultimately show ?thesis
      by (simp add: processCandle_Inr [where jAlgo = jAlgo and t = t, OF Inr Some] Let_def
          updates_closeLong updates_closeShort updates_openTrade updates_heartbeat
          t1_def t2_def t3_def t4_def t5_def)
  qed
qed

text \<open>
  C9 as stated fails on the candle that opens the trade: the entry step runs before the
  stop check, so a side that had no active trade when the candle arrived has one when its
  stop reference is compared.  Here no long trade is active, the engine returns a long
  signal and moves the long stop reference from 0 to 95, and a stop update for the long
  side is sent.
\<close>

theorem stop_update_on_entry_counterexample:
  "activeLongTrade (exampleTrader (exampleWindow 101 99 100) flatState) = None
   \<and> filter (isUpdate ''long'') (snd (processCandle
        (constEngine \<lparr>res_state = longState, res_signal = Some ''long''\<rparr>) 2000
        (exampleTrader (exampleWindow 101 99 100) flatState))) =
      [SendUpdate ''long'' (Some 0) 95 (Some 100) 105]"
  by (simp add: processCandle_def closeLong_def closeShort_def openTrade_def
      updateLongStop_def updateShortStop_def heartbeat_def constEngine_def Let_def
      exampleTrader_def LiveTrader_def exampleWindow_def last_elem_def
      flatState_def longState_def)

text \<open>
  C9, amended.  When a side has no active trade as the candle arrives and the signal of
  this candle does not open a trade on that side, no stop update is sent for that side,
  whatever happens to the side's stop reference between the state before and the state
  after the call.
\<close>

theorem no_stop_update_without_trade:
  "(activeLongTrade t = None
      \<and> (\<forall>r. jAlgo (candles t) (state t) (config t) = Inr r \<longrightarrow> res_signal r \<noteq> Some ''long'')
      \<longrightarrow> filter (isUpdate ''long'') (snd (processCandle jAlgo now t)) = [])
   \<and> (activeShortTrade t = None
      \<and> (\<forall>r. jAlgo (candles t) (state t) (config t) = Inr r \<longrightarrow> res_signal r \<noteq> Some ''short'')
      \<longrightarrow> filter (isUpdate ''short'') (snd (processCandle jAlgo now t)) = [])"
  using long_updates_processCandle [of t jAlgo now]
    short_updates_processCandle [of t jAlgo now]
  by blast

theorem no_stop_update_without_trade_witness:
  "longStopReference flatState \<noteq> longStopReference (longState\<lparr>shortStopReference := 105\<rparr>)
   \<and> shortStopReference flatState \<noteq> shortStopReference (longState\<lparr>shortStopReference := 105\<rparr>)
   \<and> filter (isUpdate ''long'') (snd (processCandle
        (constEngine \<lparr>res_state = longState\<lparr>shortStopReference := 105\<rparr>, res_signal = None\<rparr>)
        2000 (exampleTrader (exampleWindow 101 99 100) flatState))) = []
   \<and> filter (isUpdate ''short'') (snd (processCandle
        (constEngine \<lparr>res_state = longState\<lparr>shortStopReference := 105\<rparr>, res_signal = None\<rparr>)
        2000 (exampleTrader (exampleWindow 101 99 100) flatState))) = []"
proof -
  let ?r = "\<lparr>res_state = longState\<lparr>shortStopReference := 105\<rparr>, res_signal = None\<rparr>"
  let ?t = "exampleTrader (exampleWindow 101 99 100) flatState"
  have a: "activeLongTrade ?t = None" "activeShortTrade ?t = None"
    by (simp_all add: exampleTrader_def LiveTrader_def)
  have b: "\<forall>r. constEngine ?r (candles ?t) (state ?t) (config ?t) = Inr r
      \<longrightarrow> res_signal r \<noteq> Some ''long''"
    and c: "\<forall>r. constEngine ?r (candles ?t) (state ?t) (config ?t) = Inr r
      \<longrightarrow> res_signal r \<noteq> Some ''short''"
    by (auto simp add: constEngine_def)
  have d: "longStopReference flatState \<noteq> longStopReference (longState\<lparr>shortStopReference := 105\<rparr>)"
    "shortStopReference flatState \<noteq> shortStopReference (longState\<lparr>shortStopReference := 105\<rparr>)"
    by (simp_all add: flatState_def longState_def)
  from no_stop_update_without_trade [of ?t "constEngine ?r" 2000] a b c d
  show ?thesis by blast
qed

subsection \<open>The window under a stream of messages\<close>

lemma handleMessage_window:
  "candles (fst (handleMessage jAlgo now msg t)) =
     (case msg of
        KlineEvent k \<Rightarrow>
          if lastCandleTime t \<noteq> k_t k \<and> k_x k
          then map_option (\<lambda>cs. shift_candles (push_kline k cs)) (candles t)
          else candles t
      | _ \<Rightarrow> candles t)"
proof -
  have "candles (fst (processCandle jAlgo now u)) = candles u" for u
    using processCandle_frame [of u jAlgo now] by (simp add: sameConnection_def)
  then show ?thesis
    by (simp add: handleMessage_def Let_def split: message.splits option.splits)
qed

lemma handleMessage_lastCandleTime:
  "lastCandleTime (fst (handleMessage jAlgo now msg t)) =
     (case msg of KlineEvent k \<Rightarrow> k_t k | _ \<Rightarrow> lastCandleTime t)"
proof -
  have "lastCandleTime (fst (processCandle jAlgo now u)) = lastCandleTime u" for u
    using processCandle_frame [of u jAlgo now] by (simp add: sameConnection_def)
  then show ?thesis
    by (simp add: handleMessage_def Let_def split: message.splits option.splits)
qed

lemma lengths_shift_push: "lengths (shift_candles (push_kline k cs)) = lengths cs"
  by (simp add: lengths_def shift_candles_def push_kline_def)

lemma openTime_shift_push:
  "openTime (shift_candles (push_kline k cs)) = tl (openTime cs @ [k_t k])"
  by (simp add: shift_candles_def push_kline_def)

lemma handleMessages_Cons:
  "fst (handleMessages jAlgo ((now, msg) # ms) t) =
     fst (handleMessages jAlgo ms (fst (handleMessage jAlgo now msg t)))"
  by (simp add: split_beta)

lemma lengths_handleMessages:
  "candles t = Some cs \<Longrightarrow>
   \<exists>cs'. candles (fst (handleMessages jAlgo ms t)) = Some cs' \<and> lengths cs' = lengths cs"
proof (induction ms arbitrary: t cs)
  case Nil
  then show ?case by simp
next
  case (Cons m ms)
  obtain now msg where m: "m = (now, msg)" by (cases m)
  from Cons.prems
  have "\<exists>cs1. candles (fst (handleMessage jAlgo now msg t)) = Some cs1
      \<and> lengths cs1 = lengths cs"
    by (cases msg) (simp_all add: handleMessage_window lengths_shift_push)
  then obtain cs1 where 1: "candles (fst (handleMessage jAlgo now msg t)) = Some cs1"
    and 2: "lengths cs1 = lengths cs"
    by blast
  from Cons.IH [OF 1] 2 show ?case
    unfolding m handleMessages_Cons by simp
qed

lemma sorted_wrt_less_tl_snoc:
  fixes xs :: "int list"
  assumes "sorted_wrt (<) xs" "\<forall>s\<in>set xs. s < x"
  shows "sorted_wrt (<) (tl (xs @ [x]))"
proof -
  from assms have "sorted_wrt (<) (xs @ [x])" by (simp add: sorted_wrt_append)
  then show ?thesis by (cases "xs @ [x]") simp_all
qed

lemma set_tl_snoc: "set (tl (xs @ [x])) \<subseteq> insert x (set xs)"
  by (cases xs) auto

lemma handleMessages_append:
  "handleMessages jAlgo (ms @ ns) t =
     (fst (handleMessages jAlgo ns (fst (handleMessages jAlgo ms t))),
      snd (handleMessages jAlgo ms t)
        @ snd (handleMessages jAlgo ns (fst (handleMessages jAlgo ms t))))"
proof (induction ms arbitrary: t)
  case Nil
  show ?case by simp
next
  case (Cons m ms)
  obtain now msg where m: "m = (now, msg)" by (cases m)
  show ?case unfolding m by (simp add: split_beta Cons.IH)
qed

lemma klineTimes_append: "klineTimes (ms @ ns) = klineTimes ms @ klineTimes ns"
  by (induction ms rule: klineTimes.induct) simp_all

lemma lastCandleTime_handleMessages:
  "lastCandleTime (fst (handleMessages jAlgo ms t)) =
     (if klineTimes ms = [] then lastCandleTime t else last (klineTimes ms))"
proof (induction ms arbitrary: t)
  case Nil
  show ?case by simp
next
  case (Cons m ms)
  obtain now msg where m: "m = (now, msg)" by (cases m)
  show ?case
    unfolding m handleMessages_Cons Cons.IH
    by (cases msg) (simp_all add: handleMessage_lastCandleTime)
qed

lemma sorted_le_last:
  fixes xs :: "int list"
  shows "sorted xs \<Longrightarrow> x \<in> set xs \<Longrightarrow> x \<le> last xs"
  by (induction xs) auto

lemma repeated_kline_ignored:
  assumes "sorted (klineTimes (ms @ [(now, KlineEvent k)]))" "k_t k \<in> set (klineTimes ms)"
  shows "handleMessages jAlgo (ms @ [(now, KlineEvent k)]) t = handleMessages jAlgo ms t"
proof -
  from assms(2) have ne: "klineTimes ms \<noteq> []" by auto
  from assms(1) have s: "sorted (klineTimes ms)" and le: "\<forall>x\<in>set (klineTimes ms). x \<le> k_t k"
    by (simp_all add: klineTimes_append sorted_append)
  from ne le have "last (klineTimes ms) \<le> k_t k" by simp
  moreover from s assms(2) have "k_t k \<le> last (klineTimes ms)"
    by (rule sorted_le_last)
  ultimately have "lastCandleTime (fst (handleMessages jAlgo ms t)) = k_t k"
    using ne by (simp add: lastCandleTime_handleMessages)
  then show ?thesis
    by (simp add: handleMessages_append handleMessage_def)
qed


lemma window_handleMessages:
  "candles (fst (handleMessages jAlgo ms t)) =
     map_option
       (\<lambda>cs. foldl (\<lambda>w k. shift_candles (push_kline k w)) cs
          (acceptedKlines (lastCandleTime t) ms))
       (candles t)"
proof (induction ms arbitrary: t)
  case Nil
  show ?case by (simp add: option.map_ident)
next
  case (Cons m ms)
  obtain now msg where m: "m = (now, msg)" by (cases m)
  show ?case
    unfolding m handleMessages_Cons Cons.IH
    by (cases msg)
       (simp_all add: handleMessage_window handleMessage_lastCandleTime option.map_comp comp_def)
qed

lemma drop_tl_snoc: "drop n (tl (xs @ [x]) @ ys) = drop (Suc n) (xs @ x # ys)"
  by (cases xs) simp_all

lemma openTime_foldl:
  "openTime (foldl (\<lambda>w k. shift_candles (push_kline k w)) cs ks) =
     drop (length ks) (openTime cs @ map k_t ks)"
proof (induction ks arbitrary: cs)
  case Nil
  show ?case by simp
next
  case (Cons k ks)
  show ?case
    by (simp only: foldl_Cons Cons.IH openTime_shift_push drop_tl_snoc list.map length_Cons)
qed

lemma closedTimes_subset: "set (closedTimes ms) \<subseteq> set (klineTimes ms)"
  by (induction ms rule: closedTimes.induct) auto

lemma repeated_closed_ignored:
  assumes "sorted (klineTimes (ms @ [(now, KlineEvent k)]))" "k_t k \<in> set (closedTimes ms)"
  shows "handleMessages jAlgo (ms @ [(now, KlineEvent k)]) t = handleMessages jAlgo ms t"
proof -
  from assms(2) closedTimes_subset [of ms] have "k_t k \<in> set (klineTimes ms)" by blast
  with assms(1) show ?thesis by (rule repeated_kline_ignored)
qed

text \<open>
  C2 as stated fails: \<open>handleMessage\<close> compares the open time of a message with
  \<open>lastCandleTime\<close> only, never with the window.  A fresh trader has
  \<open>lastCandleTime = 0\<close>; when its window ends with the candle opened at 3 and that
  candle is delivered closed, the candle is appended a second time.  In the same way a
  completed candle that is delivered again after a later one is appended again.
\<close>

theorem window_duplicate_counterexample:
  "map_option openTime (candles (exampleTrader (exampleWindow 101 99 100) flatState))
     = Some [1, 2, 3]
   \<and> map_option openTime (candles (fst (handleMessage failingEngine 2000
        (KlineEvent (exampleKline 3 True))
        (exampleTrader (exampleWindow 101 99 100) flatState)))) = Some [2, 3, 3]
   \<and> \<not> sorted_wrt (<) [2, 3, 3 :: int] \<and> \<not> distinct [2, 3, 3 :: int]
   \<and> map_option openTime (candles (fst (handleMessages failingEngine
        [(2000, KlineEvent (exampleKline 4 True)), (2001, KlineEvent (exampleKline 5 True)),
         (2002, KlineEvent (exampleKline 4 True))]
        (exampleTrader (exampleWindow 101 99 100) flatState)))) = Some [4, 5, 4]
   \<and> \<not> sorted_wrt (<) [4, 5, 4 :: int] \<and> \<not> distinct [4, 5, 4 :: int]"
  unfolding window_handleMessages handleMessage_window
  by (simp add: exampleTrader_def LiveTrader_def exampleKline_def exampleWindow_def
      openTime_shift_push openTime_foldl)

text \<open>
  C2, amended.  For every sequence of messages the seven arrays of the window keep the
  lengths they were seeded with (at most \<open>N\<close> when seeded with at most \<open>N\<close>).  A
  candle that passes the two tests of \<open>handleMessage\<close> (flag \<open>x\<close> set, open time
  different from \<open>lastCandleTime\<close>) is pushed and the oldest entry is shifted out.  When
  the seeded open times followed by the open times of the candles so accepted are strictly
  increasing, the stored open times are strictly increasing, without duplicates.  In a
  stream whose open times never decrease, a kline whose open time is that of a completed
  candle delivered earlier in the stream changes nothing.
\<close>

theorem window_invariants:
  assumes "candles t = Some cs"
  shows "(\<exists>cs'. candles (fst (handleMessages jAlgo ms t)) = Some cs'
        \<and> lengths cs' = lengths cs
        \<and> (length (openTime cs) \<le> N \<longrightarrow> length (openTime cs') \<le> N)
        \<and> (sorted_wrt (<) (openTime cs @ map k_t (acceptedKlines (lastCandleTime t) ms)) \<longrightarrow>
            sorted_wrt (<) (openTime cs') \<and> distinct (openTime cs')))
     \<and> (k_x k \<and> lastCandleTime t \<noteq> k_t k \<longrightarrow>
          candles (fst (handleMessage jAlgo now (KlineEvent k) t))
            = Some (shift_candles (push_kline k cs))
          \<and> openTime (shift_candles (push_kline k cs)) = tl (openTime cs @ [k_t k]))
     \<and> (sorted (klineTimes (ms @ [(now, KlineEvent k)])) \<and> k_t k \<in> set (closedTimes ms) \<longrightarrow>
          handleMessages jAlgo (ms @ [(now, KlineEvent k)]) t = handleMessages jAlgo ms t)"
proof (intro conjI impI)
  from lengths_handleMessages [OF assms, of jAlgo ms]
  obtain cs' where c: "candles (fst (handleMessages jAlgo ms t)) = Some cs'"
    and l: "lengths cs' = lengths cs" by blast
  from l have n: "length (openTime cs') = length (openTime cs)"
    by (simp add: lengths_def)
  let ?acc = "acceptedKlines (lastCandleTime t) ms"
  from c assms have o: "openTime cs' = drop (length ?acc) (openTime cs @ map k_t ?acc)"
    by (auto simp add: window_handleMessages openTime_foldl)
  have "sorted_wrt (<) (openTime cs') \<and> distinct (openTime cs')"
    if "sorted_wrt (<) (openTime cs @ map k_t ?acc)"
  proof -
    from that have "sorted_wrt (<) (openTime cs')"
      unfolding o by (rule sorted_wrt_drop)
    then show ?thesis by (simp add: strict_sorted_iff)
  qed
  with c l n
  show "\<exists>cs'. candles (fst (handleMessages jAlgo ms t)) = Some cs'
        \<and> lengths cs' = lengths cs
        \<and> (length (openTime cs) \<le> N \<longrightarrow> length (openTime cs') \<le> N)
        \<and> (sorted_wrt (<) (openTime cs @ map k_t (acceptedKlines (lastCandleTime t) ms)) \<longrightarrow>
            sorted_wrt (<) (openTime cs') \<and> distinct (openTime cs'))"
    by simp
next
  assume "k_x k \<and> lastCandleTime t \<noteq> k_t k"
  with assms
  show "candles (fst (handleMessage jAlgo now (KlineEvent k) t))
      = Some (shift_candles (push_kline k cs))"
    by (simp add: handleMessage_window)
next
  show "openTime (shift_candles (push_kline k cs)) = tl (openTime cs @ [k_t k])"
    by (rule openTime_shift_push)
next
  assume "sorted (klineTimes (ms @ [(now, KlineEvent k)])) \<and> k_t k \<in> set (closedTimes ms)"
  then show "handleMessages jAlgo (ms @ [(now, KlineEvent k)]) t = handleMessages jAlgo ms t"
    by (simp add: repeated_closed_ignored)
qed

theorem window_invariants_witness:
  "(\<exists>cs'. candles (fst (handleMessages failingEngine
        [(2000, KlineEvent (exampleKline 4 False)), (2001, KlineEvent (exampleKline 5 True)),
         (2002, NotKline), (2003, KlineEvent (exampleKline 6 True))]
        (exampleTrader (exampleWindow 101 99 100) flatState))) = Some cs'
      \<and> lengths cs' = [3, 3, 3, 3, 3, 3, 3] \<and> length (openTime cs') \<le> 3
      \<and> sorted_wrt (<) (openTime cs') \<and> distinct (openTime cs'))
   \<and> map_option openTime (candles (fst (handleMessage failingEngine 2001
        (KlineEvent (exampleKline 5 True))
        (exampleTrader (exampleWindow 101 99 100) flatState)))) = Some [2, 3, 5]
   \<and> handleMessages failingEngine
        ([(2000, KlineEvent (exampleKline 4 False)), (2001, KlineEvent (exampleKline 5 True)),
          (2002, NotKline), (2003, KlineEvent (exampleKline 6 True))]
         @ [(2004, KlineEvent (exampleKline 6 True))])
        (exampleTrader (exampleWindow 101 99 100) flatState) =
      handleMessages failingEngine
        [(2000, KlineEvent (exampleKline 4 False)), (2001, KlineEvent (exampleKline 5 True)),
         (2002, NotKline), (2003, KlineEvent (exampleKline 6 True))]
        (exampleTrader (exampleWindow 101 99 100) flatState)"
proof -
  let ?t = "exampleTrader (exampleWindow 101 99 100) flatState"
  let ?cs = "exampleWindow 101 99 100"
  let ?ms = "[(2000, KlineEvent (exampleKline 4 False)), (2001, KlineEvent (exampleKline 5 True)),
         (2002, NotKline), (2003, KlineEvent (exampleKline 6 True))]"
  have a: "candles ?t = Some ?cs" by (simp add: exampleTrader_def)
  have kt: "klineTimes ?ms = [4, 5, 6]" "closedTimes ?ms = [5, 6]"
    by (simp_all add: exampleKline_def)
  have acc: "map k_t (acceptedKlines (lastCandleTime ?t) ?ms) = [5, 6]"
    by (simp add: exampleKline_def exampleTrader_def LiveTrader_def)
  have b: "sorted_wrt (<) (openTime ?cs @ map k_t (acceptedKlines (lastCandleTime ?t) ?ms))"
    unfolding acc by (simp add: exampleWindow_def)
  have c: "length (openTime ?cs) \<le> 3" "lengths ?cs = [3, 3, 3, 3, 3, 3, 3]"
    by (simp_all add: exampleWindow_def lengths_def)
  have d: "k_x (exampleKline 5 True) \<and> lastCandleTime ?t \<noteq> k_t (exampleKline 5 True)"
    by (simp add: exampleTrader_def LiveTrader_def exampleKline_def)
  have e: "sorted (klineTimes (?ms @ [(2004, KlineEvent (exampleKline 6 True))]))
      \<and> k_t (exampleKline 6 True) \<in> set (closedTimes ?ms)"
    unfolding klineTimes_append kt by (simp add: exampleKline_def)
  from window_invariants [OF a, of failingEngine ?ms 3 "exampleKline 5 True" 2001] b c d
  have 1: "\<exists>cs'. candles (fst (handleMessages failingEngine ?ms ?t)) = Some cs'
      \<and> lengths cs' = [3, 3, 3, 3, 3, 3, 3] \<and> length (openTime cs') \<le> 3
      \<and> sorted_wrt (<) (openTime cs') \<and> distinct (openTime cs')"
    and 2: "candles (fst (handleMessage failingEngine 2001 (KlineEvent (exampleKline 5 True)) ?t))
       = Some (shift_candles (push_kline (exampleKline 5 True) ?cs))
      \<and> openTime (shift_candles (push_kline (exampleKline 5 True) ?cs))
         = tl (openTime ?cs @ [k_t (exampleKline 5 True)])"
    by auto
  from 2 have p: "map_option openTime (candles (fst (handleMessage failingEngine 2001
        (KlineEvent (exampleKline 5 True)) ?t))) = Some [2, 3, 5]"
    by (simp add: exampleWindow_def exampleKline_def)
  from window_invariants [OF a, of failingEngine ?ms 3 "exampleKline 6 True" 2004] e
  have 3: "handleMessages failingEngine (?ms @ [(2004, KlineEvent (exampleKline 6 True))]) ?t
      = handleMessages failingEngine ?ms ?t"
    by blast
  from 1 p 3 show ?thesis by blast
qed

text \<open>
  C1.  A tick whose flag \<open>x\<close> is false is not ignored: \<open>handleMessage\<close> stores its open
  time in \<open>lastCandleTime\<close> before it looks at the flag.  The closing message of the same
  candle has the same open time and is then dropped as already processed: the window is
  not updated and the engine is not called.  Without the tick the same closing message is
  processed and the engine is called once.
\<close>

theorem open_tick_masks_close:
  "fst (handleMessage (constEngine \<lparr>res_state = flatState, res_signal = None\<rparr>) 2000
        (KlineEvent (exampleKline 4 False))
        (exampleTrader (exampleWindow 101 99 100) flatState)) =
     (exampleTrader (exampleWindow 101 99 100) flatState)\<lparr>lastCandleTime := 4\<rparr>
   \<and> handleMessages (constEngine \<lparr>res_state = flatState, res_signal = None\<rparr>)
        [(2000, KlineEvent (exampleKline 4 False)), (2001, KlineEvent (exampleKline 4 True))]
        (exampleTrader (exampleWindow 101 99 100) flatState) =
     ((exampleTrader (exampleWindow 101 99 100) flatState)\<lparr>lastCandleTime := 4\<rparr>, [])
   \<and> engineCalls (snd (handleMessages (constEngine \<lparr>res_state = flatState, res_signal = None\<rparr>)
        [(2001, KlineEvent (exampleKline 4 True))]
        (exampleTrader (exampleWindow 101 99 100) flatState))) = 1
   \<and> map_option openTime (candles (fst (handleMessages
        (constEngine \<lparr>res_state = flatState, res_signal = None\<rparr>)
        [(2001, KlineEvent (exampleKline 4 True))]
        (exampleTrader (exampleWindow 101 99 100) flatState)))) = Some [2, 3, 4]"
  by (simp add: handleMessage_def processCandle_def closeLong_def closeShort_def
      openTrade_def updateLongStop_def updateShortStop_def heartbeat_def constEngine_def
      Let_def exampleTrader_def LiveTrader_def exampleWindow_def exampleKline_def
      flatState_def engineCalls_def shift_candles_def push_kline_def)

text \<open>
  C3.  \<open>stop\<close> terminates the socket and clears the handle; it does not cancel the
  reconnect timer, and the timer's callback does not look at anything \<open>stop\<close> has set.
  Here the socket closes (a reconnect is scheduled in 1000 ms), \<open>stop\<close> is called during
  the wait, and the callback then opens a new socket.
\<close>

theorem stop_during_backoff_reconnects:
  "snd (onClose (exampleTrader (exampleWindow 101 99 100) flatState)) = [ReconnectTimer 1000]
   \<and> snd (stop (fst (onClose (exampleTrader (exampleWindow 101 99 100) flatState))))
       = [TerminateSocket 1]
   \<and> socket (fst (stop (fst (onClose (exampleTrader (exampleWindow 101 99 100) flatState)))))
       = None
   \<and> reconnectCallback (Inr (exampleWindow 101 99 100)) 2
       (fst (stop (fst (onClose (exampleTrader (exampleWindow 101 99 100) flatState))))) =
     ((exampleTrader (exampleWindow 101 99 100) flatState)
        \<lparr>isConnected := False, reconnectAttempts := 1, socket := Some 2\<rparr>,
      [OpenSocket 2, ConnectTimer 10000])"
  by (simp add: onClose_def attemptReconnect_def stop_def reconnectCallback_def
      connectWebSocket_def Let_def exampleTrader_def LiveTrader_def)

end
